theory Spec2Isabelle
  imports Main "HOL-Library.Word" "HOL-Library.AList"
begin

section \<open>Values, documents and the database\<close>

text \<open>
  The route handlers of the repository talk to three collaborators that are not part of
  it: the BSON identifier class (\<open>ObjectId\<close>), the MongoDB driver's collection calls and
  the web framework's \<open>NextResponse.json\<close>.  They are modelled here just far enough to run
  the handlers: an identifier is its twelve bytes, a document is an ordered list of
  fields, a collection is the list of its documents in store order.
\<close>

datatype objectid = ObjectId (id_bytes: "8 word list")

datatype jsvalue =
    JUndefined
  | JNull
  | JBool bool
  | JNumber int
  | JString string
  | JObjectId objectid
  | JDate nat
  | JArray "jsvalue list"
  | JObject "(string \<times> jsvalue) list"

type_synonym document = "(string \<times> jsvalue) list"

text \<open>A thrown JavaScript \<open>Error\<close>; the handlers only ever read its \<open>message\<close>.\<close>

datatype thrown = Error (err_message: string)

text \<open>The driver calls a handler makes, by collection name, in the order they are made.\<close>

datatype call =
    FindOne string
  | Find string
  | InsertOne string
  | UpdateOne string
  | DeleteOne string

text \<open>
  The database \<open>sample_mflix\<close>: \<open>colls w name\<close> is what \<open>db.collection(name)\<close> holds;
  \<open>calls\<close> records every driver call issued against a collection.
\<close>

record world =
  colls :: "string \<Rightarrow> document list"
  calls :: "call list"

text \<open>
  What the outside decides during one request: whether the shared client promise rejects,
  whether the store call throws, which identifier the driver generates for an insert, and
  the clock read by \<open>new Date()\<close>.
\<close>

record env =
  connect_error :: "thrown option"
  op_error :: "thrown option"
  created_pk :: objectid
  now :: nat

subsection \<open>Computations that may throw\<close>

type_synonym 'a io = "world \<Rightarrow> (thrown + 'a) \<times> world"

definition returnE :: "'a \<Rightarrow> 'a io" where
  "returnE x w = (Inr x, w)"

definition throwE :: "thrown \<Rightarrow> 'a io" where
  "throwE t w = (Inl t, w)"

definition liftE :: "thrown + 'a \<Rightarrow> 'a io" where
  "liftE r w = (r, w)"

definition bindE :: "'a io \<Rightarrow> ('a \<Rightarrow> 'b io) \<Rightarrow> 'b io" where
  "bindE m f w = (case m w of (Inl t, w') \<Rightarrow> (Inl t, w') | (Inr x, w') \<Rightarrow> f x w')"

text \<open>\<open>try { body } catch (error) { handler }\<close>.\<close>

definition try_catch :: "'a io \<Rightarrow> (thrown \<Rightarrow> 'a io) \<Rightarrow> 'a io" where
  "try_catch body handler w =
     (case body w of (Inl t, w') \<Rightarrow> handler t w' | (Inr x, w') \<Rightarrow> (Inr x, w'))"

subsection \<open>The identifier class\<close>

text \<open>The character class \<open>[0-9a-fA-F]\<close>, by character code.\<close>

definition isHexDigit :: "char \<Rightarrow> bool" where
  "isHexDigit c =
     (let n = (of_char c :: nat)
      in (48 \<le> n \<and> n \<le> 57) \<or> (97 \<le> n \<and> n \<le> 102) \<or> (65 \<le> n \<and> n \<le> 70))"

definition hexval :: "char \<Rightarrow> nat" where
  "hexval c =
     (let n = (of_char c :: nat)
      in if n \<le> 57 then n - 48 else if 97 \<le> n then n - 87 else n - 55)"

fun fromHex :: "string \<Rightarrow> 8 word list" where
  "fromHex (hi # lo # rest) = of_nat (hexval hi * 16 + hexval lo) # fromHex rest"
| "fromHex _ = []"

text \<open>
  Modelled from the spec: \<open>ObjectId\<close> is imported from the database driver, which is not
  under src/.  The spec's words: identifiers must be valid 24-character hexadecimal
  identifiers; the validator checks format only, not existence.  The constructor throws
  on any other string, and \<open>ObjectId.isValid\<close> is "the constructor does not throw".
\<close>

definition new_ObjectId :: "string \<Rightarrow> thrown + objectid" where
  "new_ObjectId s =
     (if length s = 24 \<and> list_all isHexDigit s then Inr (ObjectId (fromHex s))
      else Inl (Error ''input must be a 24 character hex string, 12 byte Uint8Array, or an integer''))"

definition ObjectId_isValid :: "string \<Rightarrow> bool" where
  "ObjectId_isValid s = (case new_ObjectId s of Inl _ \<Rightarrow> False | Inr _ \<Rightarrow> True)"

subsection \<open>The shared client and the driver calls\<close>

text \<open>
  Modelled from the spec: \<open>clientPromise\<close> is exported by lib/mongodb, which is not under
  src/.  The spec's words: the database connection is a shared, lazily-initialized
  resource reused across requests.  Awaiting it gives the client or throws.
\<close>

definition clientPromise :: "env \<Rightarrow> unit io" where
  "clientPromise e = (case connect_error e of Some t \<Rightarrow> throwE t | None \<Rightarrow> returnE ())"

text \<open>
  Modelled from the spec: the collection calls belong to the database driver, which is
  not under src/.  The spec's words: look up by exact match; documents come in the order
  the store returns them; an insert returns the store-assigned id; an update or a delete
  touches at most one matching document; the store owns id uniqueness; a call may fail,
  and then nothing is written.
\<close>

definition matches :: "document \<Rightarrow> document \<Rightarrow> bool" where
  "matches flt d = list_all (\<lambda>(k, v). map_of d k = Some v) flt"

definition logged :: "call \<Rightarrow> world \<Rightarrow> world" where
  "logged c w = w\<lparr>calls := calls w @ [c]\<rparr>"

definition findOne :: "env \<Rightarrow> string \<Rightarrow> document \<Rightarrow> document option io" where
  "findOne e c flt w =
     (case op_error e of
        Some t \<Rightarrow> (Inl t, logged (FindOne c) w)
      | None \<Rightarrow> (Inr (find (matches flt) (colls w c)), logged (FindOne c) w))"

text \<open>
  \<open>find(flt).limit(n).toArray()\<close>; \<open>None\<close> is the cursor without a \<open>limit\<close> call, and a limit
  of 0 is the store's way of saying no limit.
\<close>

definition find_toArray :: "env \<Rightarrow> string \<Rightarrow> document \<Rightarrow> nat option \<Rightarrow> document list io" where
  "find_toArray e c flt lim w =
     (case op_error e of
        Some t \<Rightarrow> (Inl t, logged (Find c) w)
      | None \<Rightarrow>
          (let found = filter (matches flt) (colls w c)
           in (Inr (case lim of
                      None \<Rightarrow> found
                    | Some n \<Rightarrow> if n = 0 then found else take n found),
               logged (Find c) w)))"

text \<open>
  \<open>insertOne\<close>: the driver puts a generated \<open>_id\<close> on a document that has none; the store
  refuses an \<open>_id\<close> the collection already holds.
\<close>

definition with_id :: "env \<Rightarrow> document \<Rightarrow> document" where
  "with_id e doc =
     (case map_of doc ''_id'' of
        None \<Rightarrow> (''_id'', JObjectId (created_pk e)) # doc
      | Some _ \<Rightarrow> doc)"

definition doc_id :: "document \<Rightarrow> jsvalue" where
  "doc_id d = (case map_of d ''_id'' of None \<Rightarrow> JUndefined | Some v \<Rightarrow> v)"

definition insertOne :: "env \<Rightarrow> string \<Rightarrow> document \<Rightarrow> jsvalue io" where
  "insertOne e c doc w =
     (case op_error e of
        Some t \<Rightarrow> (Inl t, logged (InsertOne c) w)
      | None \<Rightarrow>
          (let d = with_id e doc
           in if doc_id d \<in> set (map doc_id (colls w c))
              then (Inl (Error ''E11000 duplicate key error collection''), logged (InsertOne c) w)
              else (Inr (doc_id d),
                    (logged (InsertOne c) w)\<lparr>colls := (colls w)(c := colls w c @ [d])\<rparr>)))"

text \<open>
  \<open>updateOne(flt, { $set: upd })\<close>: every field of \<open>upd\<close> is written into the first
  matching document, in place when the document has the key and at its end otherwise.
  The driver serialises an \<open>undefined\<close> value as \<open>null\<close>.
\<close>

definition serialize_field :: "string \<times> jsvalue \<Rightarrow> string \<times> jsvalue" where
  "serialize_field kv = (fst kv, if snd kv = JUndefined then JNull else snd kv)"

definition apply_set :: "document \<Rightarrow> document \<Rightarrow> document" where
  "apply_set upd d = foldl (\<lambda>acc kv. AList.update (fst kv) (snd kv) acc) d (map serialize_field upd)"

fun update_first :: "('a \<Rightarrow> bool) \<Rightarrow> ('a \<Rightarrow> 'a) \<Rightarrow> 'a list \<Rightarrow> 'a list" where
  "update_first P f [] = []"
| "update_first P f (x # xs) = (if P x then f x # xs else x # update_first P f xs)"

fun remove_first :: "('a \<Rightarrow> bool) \<Rightarrow> 'a list \<Rightarrow> 'a list" where
  "remove_first P [] = []"
| "remove_first P (x # xs) = (if P x then xs else x # remove_first P xs)"

record update_result =
  matchedCount :: nat
  modifiedCount :: nat

definition updateOne :: "env \<Rightarrow> string \<Rightarrow> document \<Rightarrow> document \<Rightarrow> update_result io" where
  "updateOne e c flt upd w =
     (case op_error e of
        Some t \<Rightarrow> (Inl t, logged (UpdateOne c) w)
      | None \<Rightarrow>
          (case find (matches flt) (colls w c) of
             None \<Rightarrow> (Inr \<lparr>matchedCount = 0, modifiedCount = 0\<rparr>, logged (UpdateOne c) w)
           | Some d \<Rightarrow>
               (Inr \<lparr>matchedCount = 1, modifiedCount = (if apply_set upd d = d then 0 else 1)\<rparr>,
                (logged (UpdateOne c) w)
                  \<lparr>colls := (colls w)(c := update_first (matches flt) (apply_set upd) (colls w c))\<rparr>)))"

record delete_result =
  deletedCount :: nat

definition deleteOne :: "env \<Rightarrow> string \<Rightarrow> document \<Rightarrow> delete_result io" where
  "deleteOne e c flt w =
     (case op_error e of
        Some t \<Rightarrow> (Inl t, logged (DeleteOne c) w)
      | None \<Rightarrow>
          (case find (matches flt) (colls w c) of
             None \<Rightarrow> (Inr \<lparr>deletedCount = 0\<rparr>, logged (DeleteOne c) w)
           | Some d \<Rightarrow>
               (Inr \<lparr>deletedCount = 1\<rparr>,
                (logged (DeleteOne c) w)
                  \<lparr>colls := (colls w)(c := remove_first (matches flt) (colls w c))\<rparr>)))"

subsection \<open>The response envelope\<close>

record envelope =
  status :: nat
  message :: "string option"
  data :: "jsvalue option"
  error :: "string option"

record response =
  http_status :: nat
  json_body :: envelope

text \<open>
  Modelled from the spec: \<open>NextResponse.json\<close> belongs to the web framework, which is not
  under src/.  Called with a body and no second argument, as every handler does, it
  answers with the framework's default transport status.
\<close>

definition NextResponse_json :: "envelope \<Rightarrow> response" where
  "NextResponse_json body = \<lparr>http_status = 200, json_body = body\<rparr>"

text \<open>The \<open>catch\<close> block shared by every handler that has one.\<close>

definition internal_error :: "thrown \<Rightarrow> response io" where
  "internal_error err =
     returnE (NextResponse_json
       \<lparr>status = 500, message = Some ''Internal Server Error'', data = None,
        error = Some (err_message err)\<rparr>)"

section \<open>The route handlers\<close>

text \<open>
  Each exported handler is \<open>try { ... } catch (error) { ... }\<close>; the \<open>try\<close> block is the
  definition ending in \<open>_try\<close>, the handler wraps it with the shared \<open>catch\<close> block.
  Path parameters arrive as strings.
\<close>

subsection \<open>src/app/api/theaters/route.ts\<close>

definition theaters_GET_try :: "env \<Rightarrow> response io" where
  "theaters_GET_try e =
     bindE (clientPromise e) (\<lambda>client.
     bindE (find_toArray e ''theaters'' [] (Some 10)) (\<lambda>theaters.
       returnE (NextResponse_json
         \<lparr>status = 200, message = None, data = Some (JArray (map JObject theaters)),
          error = None\<rparr>)))"

definition theaters_GET :: "env \<Rightarrow> response io" where
  "theaters_GET e = try_catch (theaters_GET_try e) internal_error"

definition theaters_POST :: "response io" where
  "theaters_POST =
     returnE (NextResponse_json
       \<lparr>status = 405, message = Some ''Method Not Allowed'', data = None,
        error = Some ''POST method is not supported''\<rparr>)"

definition theaters_PUT :: "response io" where
  "theaters_PUT =
     returnE (NextResponse_json
       \<lparr>status = 405, message = Some ''Method Not Allowed'', data = None,
        error = Some ''PUT method is not supported''\<rparr>)"

definition theaters_DELETE :: "response io" where
  "theaters_DELETE =
     returnE (NextResponse_json
       \<lparr>status = 405, message = Some ''Method Not Allowed'', data = None,
        error = Some ''DELETE method is not supported''\<rparr>)"

subsection \<open>src/app/api/movies/[idMovie]/route.ts\<close>

definition movie_GET_try :: "env \<Rightarrow> string \<Rightarrow> response io" where
  "movie_GET_try e idMovie =
     bindE (clientPromise e) (\<lambda>client.
       if \<not> ObjectId_isValid idMovie then
         returnE (NextResponse_json
           \<lparr>status = 400, message = Some ''Invalid movie ID'', data = None,
            error = Some ''ID format is incorrect''\<rparr>)
       else
         bindE (liftE (new_ObjectId idMovie)) (\<lambda>oid.
         bindE (findOne e ''movies'' [(''_id'', JObjectId oid)]) (\<lambda>movie.
           case movie of
             None \<Rightarrow>
               returnE (NextResponse_json
                 \<lparr>status = 404, message = Some ''Movie not found'', data = None,
                  error = Some ''No movie found with the given ID''\<rparr>)
           | Some doc \<Rightarrow>
               returnE (NextResponse_json
                 \<lparr>status = 200, message = None,
                  data = Some (JObject [(''movie'', JObject doc)]), error = None\<rparr>))))"

definition movie_GET :: "env \<Rightarrow> string \<Rightarrow> response io" where
  "movie_GET e idMovie = try_catch (movie_GET_try e idMovie) internal_error"

definition movie_POST_document :: document where
  "movie_POST_document =
     [(''title'', JString ''test''),
      (''year'', JNumber 2025),
      (''director'', JString ''Thomas''),
      (''genre'', JArray [JString ''Sci-fi'']),
      (''plot'', JString ''test test testt'')]"

definition movie_POST_try :: "env \<Rightarrow> response io" where
  "movie_POST_try e =
     bindE (clientPromise e) (\<lambda>client.
     bindE (insertOne e ''movies'' movie_POST_document) (\<lambda>insertedId.
       returnE (NextResponse_json
         \<lparr>status = 201, message = Some ''Movie successfully added'',
          data = Some (JObject [(''insertedId'', insertedId)]), error = None\<rparr>)))"

definition movie_POST :: "env \<Rightarrow> response io" where
  "movie_POST e = try_catch (movie_POST_try e) internal_error"

definition movie_PUT_document :: document where
  "movie_PUT_document =
     [(''title'', JString ''Thomas2''),
      (''year'', JNumber 2014),
      (''director'', JString ''CThomas''),
      (''genre'', JArray [JString ''Sci-fi'', JString ''Adventure'']),
      (''plot'', JString ''A group of explorers travel through a wormhole in space in an attempt to ensure humanity's survival.'')]"

text \<open>
  The driver's \<open>UpdateResult\<close> as it is put into an envelope.  Neither handler asks for an
  upsert.
\<close>

definition update_result_json :: "update_result \<Rightarrow> jsvalue" where
  "update_result_json r =
     JObject [(''acknowledged'', JBool True),
              (''modifiedCount'', JNumber (int (modifiedCount r))),
              (''upsertedId'', JNull),
              (''upsertedCount'', JNumber 0),
              (''matchedCount'', JNumber (int (matchedCount r)))]"

definition movie_PUT_try :: "env \<Rightarrow> string \<Rightarrow> response io" where
  "movie_PUT_try e idMovie =
     bindE (clientPromise e) (\<lambda>client.
       if \<not> ObjectId_isValid idMovie then
         returnE (NextResponse_json
           \<lparr>status = 400, message = Some ''Invalid movie ID'', data = None,
            error = Some ''ID format is incorrect''\<rparr>)
       else
         bindE (liftE (new_ObjectId idMovie)) (\<lambda>oid.
         bindE (updateOne e ''movies'' [(''_id'', JObjectId oid)] movie_PUT_document) (\<lambda>updateResult.
           if matchedCount updateResult = 0 then
             returnE (NextResponse_json
               \<lparr>status = 404, message = Some ''Movie not found'', data = None,
                error = Some ''No movie to update with the given ID''\<rparr>)
           else
             returnE (NextResponse_json
               \<lparr>status = 200, message = Some ''Movie successfully updated'',
                data = Some (JObject [(''updatedId'', update_result_json updateResult)]),
                error = None\<rparr>))))"

definition movie_PUT :: "env \<Rightarrow> string \<Rightarrow> response io" where
  "movie_PUT e idMovie = try_catch (movie_PUT_try e idMovie) internal_error"

definition movie_DELETE_try :: "env \<Rightarrow> string \<Rightarrow> response io" where
  "movie_DELETE_try e idMovie =
     bindE (clientPromise e) (\<lambda>client.
       if \<not> ObjectId_isValid idMovie then
         returnE (NextResponse_json
           \<lparr>status = 400, message = Some ''Invalid movie ID'', data = None,
            error = Some ''ID format is incorrect''\<rparr>)
       else
         bindE (liftE (new_ObjectId idMovie)) (\<lambda>oid.
         bindE (deleteOne e ''movies'' [(''_id'', JObjectId oid)]) (\<lambda>result.
           if deletedCount result = 0 then
             returnE (NextResponse_json
               \<lparr>status = 404, message = Some ''Movie not found'', data = None,
                error = Some ''No movie deleted''\<rparr>)
           else
             returnE (NextResponse_json
               \<lparr>status = 200, message = Some ''Movie successfully deleted'', data = None,
                error = None\<rparr>))))"

definition movie_DELETE :: "env \<Rightarrow> string \<Rightarrow> response io" where
  "movie_DELETE e idMovie = try_catch (movie_DELETE_try e idMovie) internal_error"

subsection \<open>src/app/api/theaters/[idTheater]/route.ts\<close>

definition theater_GET_try :: "env \<Rightarrow> string \<Rightarrow> response io" where
  "theater_GET_try e idTheater =
     bindE (clientPromise e) (\<lambda>client.
       if \<not> ObjectId_isValid idTheater then
         returnE (NextResponse_json
           \<lparr>status = 400, message = Some ''Invalid theater ID'', data = None,
            error = Some ''ID format is incorrect''\<rparr>)
       else
         bindE (liftE (new_ObjectId idTheater)) (\<lambda>oid.
         bindE (findOne e ''theaters'' [(''_id'', JObjectId oid)]) (\<lambda>theater.
           case theater of
             None \<Rightarrow>
               returnE (NextResponse_json
                 \<lparr>status = 404, message = Some ''Theater not found'', data = None,
                  error = Some ''No theater found with the given ID''\<rparr>)
           | Some doc \<Rightarrow>
               returnE (NextResponse_json
                 \<lparr>status = 200, message = None,
                  data = Some (JObject [(''theater'', JObject doc)]), error = None\<rparr>))))"

definition theater_GET :: "env \<Rightarrow> string \<Rightarrow> response io" where
  "theater_GET e idTheater = try_catch (theater_GET_try e idTheater) internal_error"

definition theater_POST_document :: document where
  "theater_POST_document =
     [(''theaterId'', JString ''test'')]"

definition theater_POST_try :: "env \<Rightarrow> response io" where
  "theater_POST_try e =
     bindE (clientPromise e) (\<lambda>client.
     bindE (insertOne e ''theaters'' theater_POST_document) (\<lambda>insertedId.
       returnE (NextResponse_json
         \<lparr>status = 201, message = Some ''Theater successfully added'',
          data = Some (JObject [(''insertedId'', insertedId)]), error = None\<rparr>)))"

definition theater_POST :: "env \<Rightarrow> response io" where
  "theater_POST e = try_catch (theater_POST_try e) internal_error"

definition theater_PUT_document :: document where
  "theater_PUT_document =
     [(''theaterId'', JString ''test2'')]"

definition theater_PUT_try :: "env \<Rightarrow> string \<Rightarrow> response io" where
  "theater_PUT_try e idTheater =
     bindE (clientPromise e) (\<lambda>client.
       if \<not> ObjectId_isValid idTheater then
         returnE (NextResponse_json
           \<lparr>status = 400, message = Some ''Invalid theater ID'', data = None,
            error = Some ''ID format is incorrect''\<rparr>)
       else
         bindE (liftE (new_ObjectId idTheater)) (\<lambda>oid.
         bindE (updateOne e ''theaters'' [(''_id'', JObjectId oid)] theater_PUT_document) (\<lambda>updateResult.
           if matchedCount updateResult = 0 then
             returnE (NextResponse_json
               \<lparr>status = 404, message = Some ''Theater not found'', data = None,
                error = Some ''No theater to update with the given ID''\<rparr>)
           else
             returnE (NextResponse_json
               \<lparr>status = 200, message = Some ''Theater successfully updated'',
                data = Some (JObject [(''updatedId'', update_result_json updateResult)]),
                error = None\<rparr>))))"

definition theater_PUT :: "env \<Rightarrow> string \<Rightarrow> response io" where
  "theater_PUT e idTheater = try_catch (theater_PUT_try e idTheater) internal_error"

definition theater_DELETE_try :: "env \<Rightarrow> string \<Rightarrow> response io" where
  "theater_DELETE_try e idTheater =
     bindE (clientPromise e) (\<lambda>client.
       if \<not> ObjectId_isValid idTheater then
         returnE (NextResponse_json
           \<lparr>status = 400, message = Some ''Invalid theater ID'', data = None,
            error = Some ''ID format is incorrect''\<rparr>)
       else
         bindE (liftE (new_ObjectId idTheater)) (\<lambda>oid.
         bindE (deleteOne e ''theaters'' [(''_id'', JObjectId oid)]) (\<lambda>result.
           if deletedCount result = 0 then
             returnE (NextResponse_json
               \<lparr>status = 404, message = Some ''Theater not found'', data = None,
                error = Some ''No theater deleted''\<rparr>)
           else
             returnE (NextResponse_json
               \<lparr>status = 200, message = Some ''Theater successfully deleted'', data = None,
                error = None\<rparr>))))"

definition theater_DELETE :: "env \<Rightarrow> string \<Rightarrow> response io" where
  "theater_DELETE e idTheater = try_catch (theater_DELETE_try e idTheater) internal_error"

subsection \<open>src/unnamed/part_000, first module: /api/movies/{idMovie}/comments/{idComment}\<close>

definition comment_GET_try :: "env \<Rightarrow> string \<Rightarrow> string \<Rightarrow> response io" where
  "comment_GET_try e idMovie idComment =
     bindE (clientPromise e) (\<lambda>client.
       if \<not> ObjectId_isValid idMovie \<or> \<not> ObjectId_isValid idComment then
         returnE (NextResponse_json
           \<lparr>status = 400, message = Some ''Invalid ID format'', data = None, error = None\<rparr>)
       else
         bindE (liftE (new_ObjectId idComment)) (\<lambda>cid.
         bindE (liftE (new_ObjectId idMovie)) (\<lambda>mid.
         bindE (findOne e ''comments'' [(''_id'', JObjectId cid), (''movie_id'', JObjectId mid)])
           (\<lambda>comment.
             case comment of
               None \<Rightarrow>
                 returnE (NextResponse_json
                   \<lparr>status = 404, message = Some ''Comment not found'', data = None,
                    error = None\<rparr>)
             | Some doc \<Rightarrow>
                 returnE (NextResponse_json
                   \<lparr>status = 200, message = None, data = Some (JObject doc),
                    error = None\<rparr>)))))"

definition comment_GET :: "env \<Rightarrow> string \<Rightarrow> string \<Rightarrow> response io" where
  "comment_GET e idMovie idComment = try_catch (comment_GET_try e idMovie idComment) internal_error"

definition comment_POST_try :: "env \<Rightarrow> string \<Rightarrow> string \<Rightarrow> response io" where
  "comment_POST_try e idMovie idComment =
     (if idComment \<noteq> ''null'' then
        returnE (NextResponse_json
          \<lparr>status = 400, message = Some ''POST must target /comments/null only'', data = None,
           error = None\<rparr>)
      else if \<not> ObjectId_isValid idMovie then
        returnE (NextResponse_json
          \<lparr>status = 400, message = Some ''Invalid movie ID format'', data = None,
           error = None\<rparr>)
      else
        bindE (clientPromise e) (\<lambda>client.
        bindE (liftE (new_ObjectId idMovie)) (\<lambda>mid.
        bindE (insertOne e ''comments''
                 [(''name'', JString ''test''),
                  (''email'', JString ''test''),
                  (''text'', JString ''test''),
                  (''movie_id'', JObjectId mid),
                  (''date'', JDate (now e))])
          (\<lambda>insertedId.
            returnE (NextResponse_json
              \<lparr>status = 201, message = Some ''Comment created successfully'',
               data = Some (JObject [(''insertedId'', insertedId)]), error = None\<rparr>)))))"

definition comment_POST :: "env \<Rightarrow> string \<Rightarrow> string \<Rightarrow> response io" where
  "comment_POST e idMovie idComment = try_catch (comment_POST_try e idMovie idComment) internal_error"

text \<open>
  \<open>const { text } = await request.json()\<close>: the second argument of \<open>comment_PUT\<close> is what
  \<open>request.json()\<close> gives, a parsed JSON value or a throw.  Destructuring \<open>null\<close> throws;
  a value without a \<open>text\<close> property gives \<open>undefined\<close>.
\<close>

definition destructure_text :: "jsvalue \<Rightarrow> thrown + jsvalue" where
  "destructure_text v =
     (case v of
        JNull \<Rightarrow> Inl (Error ''Cannot destructure property text of null'')
      | JUndefined \<Rightarrow> Inl (Error ''Cannot destructure property text of undefined'')
      | JObject kvs \<Rightarrow> Inr (case map_of kvs ''text'' of None \<Rightarrow> JUndefined | Some x \<Rightarrow> x)
      | _ \<Rightarrow> Inr JUndefined)"

definition comment_PUT_try ::
  "env \<Rightarrow> thrown + jsvalue \<Rightarrow> string \<Rightarrow> string \<Rightarrow> response io" where
  "comment_PUT_try e request_json idMovie idComment =
     bindE (liftE request_json) (\<lambda>parsed.
     bindE (liftE (destructure_text parsed)) (\<lambda>text.
       if \<not> ObjectId_isValid idMovie \<or> \<not> ObjectId_isValid idComment then
         returnE (NextResponse_json
           \<lparr>status = 400, message = Some ''Invalid ID format'', data = None, error = None\<rparr>)
       else
         bindE (clientPromise e) (\<lambda>client.
         bindE (liftE (new_ObjectId idComment)) (\<lambda>cid.
         bindE (liftE (new_ObjectId idMovie)) (\<lambda>mid.
         bindE (updateOne e ''comments''
                  [(''_id'', JObjectId cid), (''movie_id'', JObjectId mid)]
                  [(''text'', text)])
           (\<lambda>result.
             if matchedCount result = 0 then
               returnE (NextResponse_json
                 \<lparr>status = 404, message = Some ''Comment not found'', data = None,
                  error = None\<rparr>)
             else
               returnE (NextResponse_json
                 \<lparr>status = 200, message = Some ''Comment updated successfully'', data = None,
                  error = None\<rparr>)))))))"

definition comment_PUT ::
  "env \<Rightarrow> thrown + jsvalue \<Rightarrow> string \<Rightarrow> string \<Rightarrow> response io" where
  "comment_PUT e request_json idMovie idComment =
     try_catch (comment_PUT_try e request_json idMovie idComment) internal_error"

definition comment_DELETE_try :: "env \<Rightarrow> string \<Rightarrow> string \<Rightarrow> response io" where
  "comment_DELETE_try e idMovie idComment =
     (if \<not> ObjectId_isValid idMovie \<or> \<not> ObjectId_isValid idComment then
        returnE (NextResponse_json
          \<lparr>status = 400, message = Some ''Invalid ID format'', data = None, error = None\<rparr>)
      else
        bindE (clientPromise e) (\<lambda>client.
        bindE (liftE (new_ObjectId idComment)) (\<lambda>cid.
        bindE (liftE (new_ObjectId idMovie)) (\<lambda>mid.
        bindE (deleteOne e ''comments'' [(''_id'', JObjectId cid), (''movie_id'', JObjectId mid)])
          (\<lambda>result.
            if deletedCount result = 0 then
              returnE (NextResponse_json
                \<lparr>status = 404, message = Some ''Comment not found'', data = None,
                 error = None\<rparr>)
            else
              returnE (NextResponse_json
                \<lparr>status = 200, message = Some ''Comment deleted successfully'', data = None,
                 error = None\<rparr>))))))"

definition comment_DELETE :: "env \<Rightarrow> string \<Rightarrow> string \<Rightarrow> response io" where
  "comment_DELETE e idMovie idComment =
     try_catch (comment_DELETE_try e idMovie idComment) internal_error"

subsection \<open>src/unnamed/part_000, second module: /api/movies/{idMovie}/comments\<close>

definition comments_GET_try :: "env \<Rightarrow> string \<Rightarrow> response io" where
  "comments_GET_try e idMovie =
     bindE (clientPromise e) (\<lambda>client.
       if \<not> ObjectId_isValid idMovie then
         returnE (NextResponse_json
           \<lparr>status = 400, message = Some ''Invalid movie ID'', data = None,
            error = Some ''ID format is incorrect''\<rparr>)
       else
         bindE (liftE (new_ObjectId idMovie)) (\<lambda>mid.
         bindE (find_toArray e ''comments'' [(''movie_id'', JObjectId mid)] None) (\<lambda>comments.
           returnE (NextResponse_json
             \<lparr>status = 200, message = None, data = Some (JArray (map JObject comments)),
              error = None\<rparr>))))"

definition comments_GET :: "env \<Rightarrow> string \<Rightarrow> response io" where
  "comments_GET e idMovie = try_catch (comments_GET_try e idMovie) internal_error"

definition comments_POST :: "response io" where
  "comments_POST =
     returnE (NextResponse_json
       \<lparr>status = 405, message = Some ''Method Not Allowed'', data = None,
        error = Some ''POST method is not supported''\<rparr>)"

definition comments_PUT :: "response io" where
  "comments_PUT =
     returnE (NextResponse_json
       \<lparr>status = 405, message = Some ''Method Not Allowed'', data = None,
        error = Some ''PUT method is not supported''\<rparr>)"

definition comments_DELETE :: "response io" where
  "comments_DELETE =
     returnE (NextResponse_json
       \<lparr>status = 405, message = Some ''Method Not Allowed'', data = None,
        error = Some ''DELETE method is not supported''\<rparr>)"

subsection \<open>Requests and routing\<close>

text \<open>
  The framework calls the export named after the HTTP verb, in the route file whose
  directory is the request path; a bracketed directory binds a path parameter.
  \<open>req_json\<close> is what \<open>request.json()\<close> would give for the request's body.  The routes
  are those whose route files are under src/.
\<close>

datatype verb = GET | POST | PUT | DELETE

datatype route =
    Theaters
  | Theater string
  | Movie string
  | MovieComments string
  | MovieComment string string

record request =
  req_verb :: verb
  req_route :: route
  req_json :: "thrown + jsvalue"

fun handler :: "env \<Rightarrow> verb \<Rightarrow> route \<Rightarrow> thrown + jsvalue \<Rightarrow> response io" where
  "handler e GET Theaters b = theaters_GET e"
| "handler e POST Theaters b = theaters_POST"
| "handler e PUT Theaters b = theaters_PUT"
| "handler e DELETE Theaters b = theaters_DELETE"
| "handler e GET (Theater idTheater) b = theater_GET e idTheater"
| "handler e POST (Theater idTheater) b = theater_POST e"
| "handler e PUT (Theater idTheater) b = theater_PUT e idTheater"
| "handler e DELETE (Theater idTheater) b = theater_DELETE e idTheater"
| "handler e GET (Movie idMovie) b = movie_GET e idMovie"
| "handler e POST (Movie idMovie) b = movie_POST e"
| "handler e PUT (Movie idMovie) b = movie_PUT e idMovie"
| "handler e DELETE (Movie idMovie) b = movie_DELETE e idMovie"
| "handler e GET (MovieComments idMovie) b = comments_GET e idMovie"
| "handler e POST (MovieComments idMovie) b = comments_POST"
| "handler e PUT (MovieComments idMovie) b = comments_PUT"
| "handler e DELETE (MovieComments idMovie) b = comments_DELETE"
| "handler e GET (MovieComment idMovie idComment) b = comment_GET e idMovie idComment"
| "handler e POST (MovieComment idMovie idComment) b = comment_POST e idMovie idComment"
| "handler e PUT (MovieComment idMovie idComment) b = comment_PUT e b idMovie idComment"
| "handler e DELETE (MovieComment idMovie idComment) b = comment_DELETE e idMovie idComment"

definition serve :: "env \<Rightarrow> request \<Rightarrow> response io" where
  "serve e rq = handler e (req_verb rq) (req_route rq) (req_json rq)"

text \<open>The \<open>try\<close> block of the handler a request reaches; the 405 handlers have none.\<close>

fun try_block :: "env \<Rightarrow> verb \<Rightarrow> route \<Rightarrow> thrown + jsvalue \<Rightarrow> response io option" where
  "try_block e GET Theaters b = Some (theaters_GET_try e)"
| "try_block e v Theaters b = None"
| "try_block e GET (Theater idTheater) b = Some (theater_GET_try e idTheater)"
| "try_block e POST (Theater idTheater) b = Some (theater_POST_try e)"
| "try_block e PUT (Theater idTheater) b = Some (theater_PUT_try e idTheater)"
| "try_block e DELETE (Theater idTheater) b = Some (theater_DELETE_try e idTheater)"
| "try_block e GET (Movie idMovie) b = Some (movie_GET_try e idMovie)"
| "try_block e POST (Movie idMovie) b = Some (movie_POST_try e)"
| "try_block e PUT (Movie idMovie) b = Some (movie_PUT_try e idMovie)"
| "try_block e DELETE (Movie idMovie) b = Some (movie_DELETE_try e idMovie)"
| "try_block e GET (MovieComments idMovie) b = Some (comments_GET_try e idMovie)"
| "try_block e v (MovieComments idMovie) b = None"
| "try_block e GET (MovieComment idMovie idComment) b = Some (comment_GET_try e idMovie idComment)"
| "try_block e POST (MovieComment idMovie idComment) b = Some (comment_POST_try e idMovie idComment)"
| "try_block e PUT (MovieComment idMovie idComment) b = Some (comment_PUT_try e b idMovie idComment)"
| "try_block e DELETE (MovieComment idMovie idComment) b = Some (comment_DELETE_try e idMovie idComment)"

text \<open>
  What the framework puts on the wire for a handler's outcome: the status of the response
  the handler returned, or 500 when the handler threw.
\<close>

definition transport_status :: "(thrown + response) \<times> world \<Rightarrow> nat" where
  "transport_status out = (case fst out of Inl t \<Rightarrow> 500 | Inr r \<Rightarrow> http_status r)"

definition envelope_of :: "(thrown + response) \<times> world \<Rightarrow> envelope option" where
  "envelope_of out = (case fst out of Inl t \<Rightarrow> None | Inr r \<Rightarrow> Some (json_body r))"

text \<open>The documents of a list response: the array in the envelope's \<open>data\<close> field.\<close>

definition listed :: "(thrown + response) \<times> world \<Rightarrow> jsvalue list" where
  "listed out =
     (case envelope_of out of
        Some env \<Rightarrow> (case data env of Some (JArray xs) \<Rightarrow> xs | _ \<Rightarrow> [])
      | None \<Rightarrow> [])"

subsection \<open>The store's invariant\<close>

text \<open>
  The store owns id uniqueness: within a collection no two documents have the same \<open>_id\<close>.
  \<open>keeps I m\<close> says that running \<open>m\<close> leaves a property \<open>I\<close> of the database in place.
\<close>

definition ids_distinct :: "world \<Rightarrow> bool" where
  "ids_distinct w = (\<forall>c. distinct (map doc_id (colls w c)))"

definition keeps :: "(world \<Rightarrow> bool) \<Rightarrow> 'a io \<Rightarrow> bool" where
  "keeps I m = (\<forall>w. I w \<longrightarrow> I (snd (m w)))"

section \<open>Example data\<close>

text \<open>Concrete environments, identifiers and databases, used to run the handlers below.\<close>

definition ex_env :: env where
  "ex_env = \<lparr>connect_error = None, op_error = None,
             created_pk = ObjectId [101, 66, 240, 17, 34, 51, 68, 85, 102, 119, 136, 153],
             now = 1700000000000\<rparr>"

definition failing_env :: env where
  "failing_env = ex_env\<lparr>op_error := Some (Error ''connection closed'')\<rparr>"

definition offline_env :: env where
  "offline_env = ex_env\<lparr>connect_error := Some (Error ''getaddrinfo ENOTFOUND'')\<rparr>"

definition ex_movie_id :: string where
  "ex_movie_id = ''573a1390f29313caabcd680a''"

definition ex_movie_oid :: objectid where
  "ex_movie_oid = ObjectId [87, 58, 19, 144, 242, 147, 19, 202, 171, 205, 104, 10]"

definition ex_comment_id :: string where
  "ex_comment_id = ''5a9427648b0beebeb6957a88''"

definition ex_comment_oid :: objectid where
  "ex_comment_oid = ObjectId [90, 148, 39, 100, 139, 11, 238, 190, 182, 149, 122, 136]"

definition ex_theater_id :: string where
  "ex_theater_id = ''59a47286cfa9a3a73e51e72c''"

definition ex_theater_oid :: objectid where
  "ex_theater_oid = ObjectId [89, 164, 114, 134, 207, 169, 163, 167, 62, 81, 231, 44]"

definition absent_id :: string where
  "absent_id = ''0123456789abcdef01234567''"

definition absent_oid :: objectid where
  "absent_oid = ObjectId [1, 35, 69, 103, 137, 171, 205, 239, 1, 35, 69, 103]"

definition ex_movie :: document where
  "ex_movie = [(''_id'', JObjectId ex_movie_oid), (''title'', JString ''The Great Train Robbery'')]"

definition ex_theater :: document where
  "ex_theater = [(''_id'', JObjectId ex_theater_oid), (''theaterId'', JNumber 1000)]"

definition ex_comment :: document where
  "ex_comment =
     [(''_id'', JObjectId ex_comment_oid),
      (''name'', JString ''Thomas Morris''),
      (''email'', JString ''thomas_morris@fakegmail.com''),
      (''movie_id'', JObjectId ex_movie_oid),
      (''text'', JString ''Perspiciatis sequi nesciunt maiores''),
      (''date'', JDate 1077777183000)]"

definition ex_world :: world where
  "ex_world =
     \<lparr>colls = (\<lambda>c. [])(''movies'' := [ex_movie], ''theaters'' := [ex_theater],
                        ''comments'' := [ex_comment]),
      calls = []\<rparr>"

text \<open>A database with twelve theaters, and eleven comments on one movie.\<close>

definition crowded_world :: world where
  "crowded_world =
     \<lparr>colls = (\<lambda>c. [])(
        ''theaters'' :=
          map (\<lambda>n. [(''_id'', JNumber n), (''theaterId'', JNumber (1000 + n))])
            [1, 2, 3, 4, 5, 6, 7, 8, 9, 10, 11, 12],
        ''comments'' :=
          map (\<lambda>n. [(''_id'', JNumber n), (''movie_id'', JObjectId ex_movie_oid)])
            [1, 2, 3, 4, 5, 6, 7, 8, 9, 10, 11]),
      calls = []\<rparr>"

section \<open>Lemmas about the model\<close>

subsection \<open>Unfolding sets\<close>

lemmas io_defs = returnE_def throwE_def liftE_def bindE_def try_catch_def clientPromise_def
  internal_error_def

lemmas try_defs = theaters_GET_try_def theater_GET_try_def theater_POST_try_def theater_PUT_try_def
  theater_DELETE_try_def movie_GET_try_def movie_POST_try_def movie_PUT_try_def movie_DELETE_try_def
  comment_GET_try_def comment_POST_try_def comment_PUT_try_def comment_DELETE_try_def comments_GET_try_def

lemmas handler_defs = theaters_GET_def theaters_POST_def theaters_PUT_def theaters_DELETE_def
  theater_GET_def theater_POST_def theater_PUT_def theater_DELETE_def
  movie_GET_def movie_POST_def movie_PUT_def movie_DELETE_def
  comment_GET_def comment_POST_def comment_PUT_def comment_DELETE_def
  comments_GET_def comments_POST_def comments_PUT_def comments_DELETE_def

lemmas store_defs = findOne_def find_toArray_def insertOne_def updateOne_def deleteOne_def

subsection \<open>The catch block\<close>

lemma try_catch_internal_error:
  "try_catch m internal_error w =
     (case m w of
        (Inl t, w') \<Rightarrow> (Inr (NextResponse_json \<lparr>status = 500, message = Some ''Internal Server Error'', data = None, error = Some (err_message t)\<rparr>), w')
      | (Inr r, w') \<Rightarrow> (Inr r, w'))"
  by (simp add: try_catch_def internal_error_def returnE_def split: prod.splits sum.splits)

lemma try_catch_returns: "\<exists>r. fst (try_catch m internal_error w) = Inr r"
  by (simp add: try_catch_internal_error split: prod.splits sum.splits)

lemma handler_returns: "\<exists>r. fst (handler e v rt b w) = Inr r"
  by (cases "(e, v, rt, b)" rule: handler.cases)
     (simp_all add: handler_defs try_catch_returns, simp_all add: returnE_def)

lemma http_200_try: 
  assumes "\<And>r w'. m w = (Inr r, w') \<Longrightarrow> http_status r = 200"
  shows "transport_status (try_catch m internal_error w) = 200"
  using assms
  by (auto simp add: try_catch_internal_error transport_status_def NextResponse_json_def split: prod.splits sum.splits)


lemma http_200_all:
  "try_block e v rt b = Some m \<Longrightarrow> m w = (Inr r, w') \<Longrightarrow> http_status r = 200"
  by (cases "(e, v, rt, b)" rule: try_block.cases)
     (auto simp add: try_defs io_defs store_defs NextResponse_json_def Let_def
           split: option.splits sum.splits prod.splits if_splits)

lemma handler_try_block:
  "try_block e v rt b = Some m \<Longrightarrow> handler e v rt b = try_catch m internal_error"
  by (cases "(e, v, rt, b)" rule: try_block.cases) (auto simp add: handler_defs)

lemma handler_no_try_block:
  "try_block e v rt b = None \<Longrightarrow> \<exists>env. handler e v rt b = returnE (NextResponse_json env)"
  by (cases "(e, v, rt, b)" rule: try_block.cases) (auto simp add: handler_defs)

subsection \<open>Identifiers\<close>

lemma new_ObjectId_valid: "new_ObjectId s = Inr oid \<Longrightarrow> ObjectId_isValid s"
  by (simp add: ObjectId_isValid_def)

lemma valid_new_ObjectId: "ObjectId_isValid s \<Longrightarrow> \<exists>oid. new_ObjectId s = Inr oid"
  by (simp add: ObjectId_isValid_def split: sum.splits)

subsection \<open>List handlers\<close>

lemma comments_GET_lists_all:
  assumes "connect_error e = None" "op_error e = None" "new_ObjectId idMovie = Inr mid"
  shows "comments_GET e idMovie w =
     (Inr (NextResponse_json \<lparr>status = 200, message = None,
        data = Some (JArray (map JObject (filter (matches [(''movie_id'', JObjectId mid)]) (colls w ''comments'')))),
        error = None\<rparr>), logged (Find ''comments'') w)"
  using assms new_ObjectId_valid [OF assms(3)]
  by (simp add: comments_GET_def comments_GET_try_def io_defs find_toArray_def)

lemma theaters_GET_lists_ten:
  assumes "connect_error e = None" "op_error e = None"
  shows "theaters_GET e w =
     (Inr (NextResponse_json \<lparr>status = 200, message = None,
        data = Some (JArray (map JObject (take 10 (colls w ''theaters'')))),
        error = None\<rparr>), logged (Find ''theaters'') w)"
  using assms
  by (simp add: theaters_GET_def theaters_GET_try_def io_defs find_toArray_def matches_def)

lemma theaters_GET_at_most_ten: "length (listed (theaters_GET e w)) \<le> 10"
  by (simp add: theaters_GET_def theaters_GET_try_def io_defs find_toArray_def listed_def
      envelope_of_def NextResponse_json_def split: option.splits)

subsection \<open>The first match in a collection\<close>

lemma matches_id: "matches ((''_id'', v) # flt) d \<Longrightarrow> doc_id d = v"
  by (simp add: matches_def doc_id_def)

lemma find_remove_first_unique:
  assumes "distinct (map f xs)" and "\<And>x. P x \<Longrightarrow> f x = v"
  shows "find P (remove_first P xs) = None"
  using assms(1)
proof (induction xs)
  case Nil
  then show ?case by simp
next
  case (Cons x xs)
  show ?case
  proof (cases "P x")
    case True
    have "\<not> P y" if "y \<in> set xs" for y
    proof
      assume "P y"
      then have "f y = f x" using assms(2) True by simp
      moreover have "f x \<notin> f ` set xs" using Cons.prems by simp
      ultimately show False using that by (metis imageI)
    qed
    with True show ?thesis by (simp add: find_None_iff)
  next
    case False
    with Cons show ?thesis by simp
  qed
qed

lemma remove_first_remove1: "find P xs = Some d \<Longrightarrow> remove_first P xs = remove1 d xs"
proof (induction xs)
  case Nil
  then show ?case by simp
next
  case (Cons x xs)
  show ?case
  proof (cases "P x")
    case True
    with Cons.prems show ?thesis by simp
  next
    case False
    with Cons.prems have tl: "find P xs = Some d" by simp
    then have "P d" by (auto simp add: find_Some_iff)
    with False have "d \<noteq> x" by blast
    with False Cons.IH [OF tl] show ?thesis by simp
  qed
qed

lemma update_first_split:
  "find P xs = Some d \<Longrightarrow>
     \<exists>pre post. xs = pre @ d # post \<and> list_all (\<lambda>x. \<not> P x) pre \<and>
       update_first P f xs = pre @ f d # post"
proof (induction xs)
  case Nil
  then show ?case by simp
next
  case (Cons x xs)
  show ?case
  proof (cases "P x")
    case True
    with Cons.prems have "x = d" by simp
    with True have "x # xs = [] @ d # xs \<and> list_all (\<lambda>x. \<not> P x) [] \<and>
       update_first P f (x # xs) = [] @ f d # xs" by simp
    then show ?thesis by blast
  next
    case False
    with Cons.prems have "find P xs = Some d" by simp
    from Cons.IH [OF this] obtain pre post where
      "xs = pre @ d # post" "list_all (\<lambda>x. \<not> P x) pre" "update_first P f xs = pre @ f d # post"
      by blast
    with False have "x # xs = (x # pre) @ d # post \<and> list_all (\<lambda>x. \<not> P x) (x # pre) \<and>
       update_first P f (x # xs) = (x # pre) @ f d # post" by simp
    then show ?thesis by blast
  qed
qed


subsection \<open>Item handlers on a store that answers\<close>

lemma movie_GET_not_found:
  assumes "connect_error e = None" "op_error e = None" "new_ObjectId i = Inr oid"
    and "find (matches [(''_id'', JObjectId oid)]) (colls w ''movies'') = None"
  shows "movie_GET e i w =
     (Inr (NextResponse_json \<lparr>status = 404, message = Some ''Movie not found'', data = None, error = Some ''No movie found with the given ID''\<rparr>), logged (FindOne ''movies'') w)"
  using assms new_ObjectId_valid [OF assms(3)]
  by (simp add: movie_GET_def movie_GET_try_def io_defs findOne_def)

lemma movie_PUT_not_found:
  assumes "connect_error e = None" "op_error e = None" "new_ObjectId i = Inr oid"
    and "find (matches [(''_id'', JObjectId oid)]) (colls w ''movies'') = None"
  shows "movie_PUT e i w =
     (Inr (NextResponse_json \<lparr>status = 404, message = Some ''Movie not found'', data = None, error = Some ''No movie to update with the given ID''\<rparr>), logged (UpdateOne ''movies'') w)"
  using assms new_ObjectId_valid [OF assms(3)]
  by (simp add: movie_PUT_def movie_PUT_try_def io_defs updateOne_def)

lemma movie_DELETE_not_found:
  assumes "connect_error e = None" "op_error e = None" "new_ObjectId i = Inr oid"
    and "find (matches [(''_id'', JObjectId oid)]) (colls w ''movies'') = None"
  shows "movie_DELETE e i w =
     (Inr (NextResponse_json \<lparr>status = 404, message = Some ''Movie not found'', data = None, error = Some ''No movie deleted''\<rparr>), logged (DeleteOne ''movies'') w)"
  using assms new_ObjectId_valid [OF assms(3)]
  by (simp add: movie_DELETE_def movie_DELETE_try_def io_defs deleteOne_def)

lemma movie_DELETE_found:
  assumes "connect_error e = None" "op_error e = None" "new_ObjectId i = Inr oid"
    and "find (matches [(''_id'', JObjectId oid)]) (colls w ''movies'') = Some d"
  shows "movie_DELETE e i w =
     (Inr (NextResponse_json \<lparr>status = 200, message = Some ''Movie successfully deleted'', data = None, error = None\<rparr>),
      (logged (DeleteOne ''movies'') w)
        \<lparr>colls := (colls w)(''movies'' := remove1 d (colls w ''movies''))\<rparr>)"
  using assms new_ObjectId_valid [OF assms(3)] remove_first_remove1 [OF assms(4)]
  by (simp add: movie_DELETE_def movie_DELETE_try_def io_defs deleteOne_def)

lemma theater_GET_not_found:
  assumes "connect_error e = None" "op_error e = None" "new_ObjectId i = Inr oid"
    and "find (matches [(''_id'', JObjectId oid)]) (colls w ''theaters'') = None"
  shows "theater_GET e i w =
     (Inr (NextResponse_json \<lparr>status = 404, message = Some ''Theater not found'', data = None, error = Some ''No theater found with the given ID''\<rparr>), logged (FindOne ''theaters'') w)"
  using assms new_ObjectId_valid [OF assms(3)]
  by (simp add: theater_GET_def theater_GET_try_def io_defs findOne_def)

lemma theater_PUT_not_found:
  assumes "connect_error e = None" "op_error e = None" "new_ObjectId i = Inr oid"
    and "find (matches [(''_id'', JObjectId oid)]) (colls w ''theaters'') = None"
  shows "theater_PUT e i w =
     (Inr (NextResponse_json \<lparr>status = 404, message = Some ''Theater not found'', data = None, error = Some ''No theater to update with the given ID''\<rparr>), logged (UpdateOne ''theaters'') w)"
  using assms new_ObjectId_valid [OF assms(3)]
  by (simp add: theater_PUT_def theater_PUT_try_def io_defs updateOne_def)

lemma theater_DELETE_not_found:
  assumes "connect_error e = None" "op_error e = None" "new_ObjectId i = Inr oid"
    and "find (matches [(''_id'', JObjectId oid)]) (colls w ''theaters'') = None"
  shows "theater_DELETE e i w =
     (Inr (NextResponse_json \<lparr>status = 404, message = Some ''Theater not found'', data = None, error = Some ''No theater deleted''\<rparr>), logged (DeleteOne ''theaters'') w)"
  using assms new_ObjectId_valid [OF assms(3)]
  by (simp add: theater_DELETE_def theater_DELETE_try_def io_defs deleteOne_def)

lemma theater_DELETE_found:
  assumes "connect_error e = None" "op_error e = None" "new_ObjectId i = Inr oid"
    and "find (matches [(''_id'', JObjectId oid)]) (colls w ''theaters'') = Some d"
  shows "theater_DELETE e i w =
     (Inr (NextResponse_json \<lparr>status = 200, message = Some ''Theater successfully deleted'', data = None, error = None\<rparr>),
      (logged (DeleteOne ''theaters'') w)
        \<lparr>colls := (colls w)(''theaters'' := remove1 d (colls w ''theaters''))\<rparr>)"
  using assms new_ObjectId_valid [OF assms(3)] remove_first_remove1 [OF assms(4)]
  by (simp add: theater_DELETE_def theater_DELETE_try_def io_defs deleteOne_def)

lemma comment_GET_not_found:
  assumes "connect_error e = None" "op_error e = None"
    and "new_ObjectId idMovie = Inr mid" "new_ObjectId idComment = Inr cid"
    and "find (matches [(''_id'', JObjectId cid), (''movie_id'', JObjectId mid)]) (colls w ''comments'') = None"
  shows "comment_GET e idMovie idComment w =
     (Inr (NextResponse_json \<lparr>status = 404, message = Some ''Comment not found'', data = None, error = None\<rparr>),
      logged (FindOne ''comments'') w)"
  using assms new_ObjectId_valid [OF assms(3)] new_ObjectId_valid [OF assms(4)]
  by (simp add: comment_GET_def comment_GET_try_def io_defs findOne_def)

lemma comment_PUT_not_found:
  assumes "connect_error e = None" "op_error e = None"
    and "new_ObjectId idMovie = Inr mid" "new_ObjectId idComment = Inr cid"
    and "destructure_text parsed = Inr newText"
    and "find (matches [(''_id'', JObjectId cid), (''movie_id'', JObjectId mid)]) (colls w ''comments'') = None"
  shows "comment_PUT e (Inr parsed) idMovie idComment w =
     (Inr (NextResponse_json \<lparr>status = 404, message = Some ''Comment not found'', data = None, error = None\<rparr>),
      logged (UpdateOne ''comments'') w)"
  using assms new_ObjectId_valid [OF assms(3)] new_ObjectId_valid [OF assms(4)]
  by (simp add: comment_PUT_def comment_PUT_try_def io_defs updateOne_def)

lemma comment_DELETE_not_found:
  assumes "connect_error e = None" "op_error e = None"
    and "new_ObjectId idMovie = Inr mid" "new_ObjectId idComment = Inr cid"
    and "find (matches [(''_id'', JObjectId cid), (''movie_id'', JObjectId mid)]) (colls w ''comments'') = None"
  shows "comment_DELETE e idMovie idComment w =
     (Inr (NextResponse_json \<lparr>status = 404, message = Some ''Comment not found'', data = None, error = None\<rparr>),
      logged (DeleteOne ''comments'') w)"
  using assms new_ObjectId_valid [OF assms(3)] new_ObjectId_valid [OF assms(4)]
  by (simp add: comment_DELETE_def comment_DELETE_try_def io_defs deleteOne_def)

lemma comment_DELETE_found:
  assumes "connect_error e = None" "op_error e = None"
    and "new_ObjectId idMovie = Inr mid" "new_ObjectId idComment = Inr cid"
    and "find (matches [(''_id'', JObjectId cid), (''movie_id'', JObjectId mid)]) (colls w ''comments'') = Some d"
  shows "comment_DELETE e idMovie idComment w =
     (Inr (NextResponse_json \<lparr>status = 200, message = Some ''Comment deleted successfully'', data = None, error = None\<rparr>),
      (logged (DeleteOne ''comments'') w)
        \<lparr>colls := (colls w)(''comments'' := remove1 d (colls w ''comments''))\<rparr>)"
  using assms new_ObjectId_valid [OF assms(3)] new_ObjectId_valid [OF assms(4)]
    remove_first_remove1 [OF assms(5)]
  by (simp add: comment_DELETE_def comment_DELETE_try_def io_defs deleteOne_def)

lemma find_remove1_unique:
  assumes "distinct (map doc_id xs)" and "find (matches ((''_id'', v) # flt)) xs = Some d"
  shows "find (matches ((''_id'', v) # flt)) (remove1 d xs) = None"
  using find_remove_first_unique [OF assms(1), of "matches ((''_id'', v) # flt)" v]
    remove_first_remove1 [OF assms(2)] matches_id
  by simp


subsection \<open>Malformed identifiers\<close>

lemma colls_logged [simp]: "colls (logged c w) = colls w"
  by (simp add: logged_def)

lemma calls_logged [simp]: "calls (logged c w) = calls w @ [c]"
  by (simp add: logged_def)

lemma movie_GET_malformed:
  assumes "\<not> ObjectId_isValid i"
  shows "snd (movie_GET e i w) = w"
    and "connect_error e = None \<Longrightarrow> fst (movie_GET e i w) =
      Inr (NextResponse_json \<lparr>status = 400, message = Some ''Invalid movie ID'', data = None, error = Some ''ID format is incorrect''\<rparr>)"
  using assms
  by (simp_all add: movie_GET_def movie_GET_try_def io_defs split: option.splits)

lemma movie_PUT_malformed:
  assumes "\<not> ObjectId_isValid i"
  shows "snd (movie_PUT e i w) = w"
    and "connect_error e = None \<Longrightarrow> fst (movie_PUT e i w) =
      Inr (NextResponse_json \<lparr>status = 400, message = Some ''Invalid movie ID'', data = None, error = Some ''ID format is incorrect''\<rparr>)"
  using assms
  by (simp_all add: movie_PUT_def movie_PUT_try_def io_defs split: option.splits)

lemma movie_DELETE_malformed:
  assumes "\<not> ObjectId_isValid i"
  shows "snd (movie_DELETE e i w) = w"
    and "connect_error e = None \<Longrightarrow> fst (movie_DELETE e i w) =
      Inr (NextResponse_json \<lparr>status = 400, message = Some ''Invalid movie ID'', data = None, error = Some ''ID format is incorrect''\<rparr>)"
  using assms
  by (simp_all add: movie_DELETE_def movie_DELETE_try_def io_defs split: option.splits)

lemma theater_GET_malformed:
  assumes "\<not> ObjectId_isValid i"
  shows "snd (theater_GET e i w) = w"
    and "connect_error e = None \<Longrightarrow> fst (theater_GET e i w) =
      Inr (NextResponse_json \<lparr>status = 400, message = Some ''Invalid theater ID'', data = None, error = Some ''ID format is incorrect''\<rparr>)"
  using assms
  by (simp_all add: theater_GET_def theater_GET_try_def io_defs split: option.splits)

lemma theater_PUT_malformed:
  assumes "\<not> ObjectId_isValid i"
  shows "snd (theater_PUT e i w) = w"
    and "connect_error e = None \<Longrightarrow> fst (theater_PUT e i w) =
      Inr (NextResponse_json \<lparr>status = 400, message = Some ''Invalid theater ID'', data = None, error = Some ''ID format is incorrect''\<rparr>)"
  using assms
  by (simp_all add: theater_PUT_def theater_PUT_try_def io_defs split: option.splits)

lemma theater_DELETE_malformed:
  assumes "\<not> ObjectId_isValid i"
  shows "snd (theater_DELETE e i w) = w"
    and "connect_error e = None \<Longrightarrow> fst (theater_DELETE e i w) =
      Inr (NextResponse_json \<lparr>status = 400, message = Some ''Invalid theater ID'', data = None, error = Some ''ID format is incorrect''\<rparr>)"
  using assms
  by (simp_all add: theater_DELETE_def theater_DELETE_try_def io_defs split: option.splits)

lemma comments_GET_malformed:
  assumes "\<not> ObjectId_isValid i"
  shows "snd (comments_GET e i w) = w"
    and "connect_error e = None \<Longrightarrow> fst (comments_GET e i w) =
      Inr (NextResponse_json \<lparr>status = 400, message = Some ''Invalid movie ID'', data = None, error = Some ''ID format is incorrect''\<rparr>)"
  using assms
  by (simp_all add: comments_GET_def comments_GET_try_def io_defs split: option.splits)

lemma comment_GET_malformed:
  assumes "\<not> ObjectId_isValid idMovie \<or> \<not> ObjectId_isValid idComment"
  shows "snd (comment_GET e idMovie idComment w) = w"
    and "connect_error e = None \<Longrightarrow> fst (comment_GET e idMovie idComment w) =
      Inr (NextResponse_json \<lparr>status = 400, message = Some ''Invalid ID format'', data = None, error = None\<rparr>)"
  using assms
  by (auto simp add: comment_GET_def comment_GET_try_def io_defs split: option.splits)

lemma comment_PUT_malformed:
  assumes "\<not> ObjectId_isValid idMovie \<or> \<not> ObjectId_isValid idComment"
  shows "snd (comment_PUT e rj idMovie idComment w) = w"
    and "rj = Inr parsed \<Longrightarrow> destructure_text parsed = Inr newText \<Longrightarrow>
      fst (comment_PUT e rj idMovie idComment w) =
      Inr (NextResponse_json \<lparr>status = 400, message = Some ''Invalid ID format'', data = None, error = None\<rparr>)"
  using assms
  by (auto simp add: comment_PUT_def comment_PUT_try_def io_defs split: option.splits sum.splits)

lemma comment_DELETE_malformed:
  assumes "\<not> ObjectId_isValid idMovie \<or> \<not> ObjectId_isValid idComment"
  shows "comment_DELETE e idMovie idComment w =
      (Inr (NextResponse_json \<lparr>status = 400, message = Some ''Invalid ID format'', data = None, error = None\<rparr>), w)"
  using assms
  by (auto simp add: comment_DELETE_def comment_DELETE_try_def io_defs)

lemma comment_POST_malformed:
  assumes "\<not> ObjectId_isValid idMovie"
  shows "comment_POST e idMovie ''null'' w =
      (Inr (NextResponse_json \<lparr>status = 400, message = Some ''Invalid movie ID format'', data = None, error = None\<rparr>), w)"
  using assms
  by (auto simp add: comment_POST_def comment_POST_try_def io_defs)

subsection \<open>Creation\<close>

lemma comment_POST_not_sentinel:
  assumes "idComment \<noteq> ''null''"
  shows "comment_POST e idMovie idComment w =
      (Inr (NextResponse_json \<lparr>status = 400, message = Some ''POST must target /comments/null only'', data = None, error = None\<rparr>), w)"
  using assms
  by (auto simp add: comment_POST_def comment_POST_try_def io_defs)

lemma comment_POST_created_only:
  assumes "map_option status (envelope_of (comment_POST e idMovie idComment w)) = Some 201"
  shows "idComment = ''null'' \<and> ObjectId_isValid idMovie"
proof -
  have "idComment = ''null''"
    using assms comment_POST_not_sentinel [of idComment e idMovie w]
    by (cases "idComment = ''null''") (simp_all add: envelope_of_def NextResponse_json_def)
  moreover have "ObjectId_isValid idMovie"
    using assms comment_POST_malformed [of idMovie e w] \<open>idComment = ''null''\<close>
    by (cases "ObjectId_isValid idMovie") (simp_all add: envelope_of_def NextResponse_json_def)
  ultimately show ?thesis by simp
qed

lemma comment_POST_creates:
  assumes "connect_error e = None" "op_error e = None" "new_ObjectId idMovie = Inr mid"
    and "JObjectId (created_pk e) \<notin> set (map doc_id (colls w ''comments''))"
  shows "comment_POST e idMovie ''null'' w =
     (Inr (NextResponse_json
        \<lparr>status = 201, message = Some ''Comment created successfully'',
         data = Some (JObject [(''insertedId'', JObjectId (created_pk e))]), error = None\<rparr>),
      \<lparr>colls = (colls w)(''comments'' := colls w ''comments'' @
          [[(''_id'', JObjectId (created_pk e)),
            (''name'', JString ''test''),
            (''email'', JString ''test''),
            (''text'', JString ''test''),
            (''movie_id'', JObjectId mid),
            (''date'', JDate (now e))]]),
       calls = calls w @ [InsertOne ''comments'']\<rparr>)"
  using assms new_ObjectId_valid [OF assms(3)]
  by (simp add: comment_POST_def comment_POST_try_def io_defs insertOne_def with_id_def
      doc_id_def logged_def)

lemma movie_POST_creates:
  assumes "connect_error e = None" "op_error e = None"
    and "JObjectId (created_pk e) \<notin> set (map doc_id (colls w ''movies''))"
  shows "movie_POST e w =
     (Inr (NextResponse_json
        \<lparr>status = 201, message = Some ''Movie successfully added'',
         data = Some (JObject [(''insertedId'', JObjectId (created_pk e))]), error = None\<rparr>),
      \<lparr>colls = (colls w)(''movies'' := colls w ''movies'' @
          [(''_id'', JObjectId (created_pk e)) # movie_POST_document]),
       calls = calls w @ [InsertOne ''movies'']\<rparr>)"
  using assms
  by (simp add: movie_POST_def movie_POST_try_def io_defs insertOne_def with_id_def
      doc_id_def logged_def movie_POST_document_def)

lemma theater_POST_creates:
  assumes "connect_error e = None" "op_error e = None"
    and "JObjectId (created_pk e) \<notin> set (map doc_id (colls w ''theaters''))"
  shows "theater_POST e w =
     (Inr (NextResponse_json
        \<lparr>status = 201, message = Some ''Theater successfully added'',
         data = Some (JObject [(''insertedId'', JObjectId (created_pk e))]), error = None\<rparr>),
      \<lparr>colls = (colls w)(''theaters'' := colls w ''theaters'' @
          [(''_id'', JObjectId (created_pk e)) # theater_POST_document]),
       calls = calls w @ [InsertOne ''theaters'']\<rparr>)"
  using assms
  by (simp add: theater_POST_def theater_POST_try_def io_defs insertOne_def with_id_def
      doc_id_def logged_def theater_POST_document_def)


subsection \<open>Comment update\<close>

lemma apply_set_text:
  "apply_set [(''text'', newText)] = AList.update ''text'' (if newText = JUndefined then JNull else newText)"
  by (rule ext) (simp add: apply_set_def serialize_field_def)

lemma comment_PUT_found:
  assumes "connect_error e = None" "op_error e = None"
    and "new_ObjectId idMovie = Inr mid" "new_ObjectId idComment = Inr cid"
    and "destructure_text parsed = Inr newText"
    and "find (matches [(''_id'', JObjectId cid), (''movie_id'', JObjectId mid)]) (colls w ''comments'') = Some d"
  shows "comment_PUT e (Inr parsed) idMovie idComment w =
     (Inr (NextResponse_json \<lparr>status = 200, message = Some ''Comment updated successfully'', data = None, error = None\<rparr>),
      \<lparr>colls = (colls w)(''comments'' :=
          update_first (matches [(''_id'', JObjectId cid), (''movie_id'', JObjectId mid)])
            (AList.update ''text'' (if newText = JUndefined then JNull else newText)) (colls w ''comments'')),
       calls = calls w @ [UpdateOne ''comments'']\<rparr>)"
  using assms new_ObjectId_valid [OF assms(3)] new_ObjectId_valid [OF assms(4)]
  by (simp add: comment_PUT_def comment_PUT_try_def io_defs updateOne_def logged_def apply_set_text
      del: One_nat_def)

subsection \<open>Store failures\<close>

lemma store_fault_surfaces:
  assumes "op_error e = Some t" and "calls (snd (handler e v rt b w)) \<noteq> calls w"
  shows "fst (handler e v rt b w) =
     Inr (NextResponse_json \<lparr>status = 500, message = Some ''Internal Server Error'', data = None, error = Some (err_message t)\<rparr>)"
  using assms
  by (cases "(e, v, rt, b)" rule: handler.cases)
     (auto simp add: handler_defs try_defs io_defs store_defs
           split: option.splits sum.splits prod.splits if_splits)

subsection \<open>The format the validator accepts\<close>

lemma isHexDigit_iff: "isHexDigit c \<longleftrightarrow> c \<in> set ''0123456789abcdefABCDEF''"
proof -
  obtain b0 b1 b2 b3 b4 b5 b6 b7 where c: "c = Char b0 b1 b2 b3 b4 b5 b6 b7" by (cases c)
  show ?thesis unfolding c isHexDigit_def Let_def
    by (cases b0; cases b1; cases b2; cases b3; cases b4; cases b5; cases b6; cases b7; simp)
qed

lemma ObjectId_isValid_iff_aux:
  "ObjectId_isValid s \<longleftrightarrow> length s = 24 \<and> (\<forall>c\<in>set s. c \<in> set ''0123456789abcdefABCDEF'')"
  by (simp only: ObjectId_isValid_def new_ObjectId_def list_all_iff isHexDigit_iff [symmetric]) simp

subsection \<open>Identifier uniqueness is kept\<close>

text \<open>The store's guarantee that identifiers are unique within a collection is kept by
  every driver call the handlers make.\<close>

lemma doc_id_update: "''_id'' \<noteq> k \<Longrightarrow> doc_id (AList.update k v d) = doc_id d"
  by (simp add: doc_id_def update_conv')

lemma doc_id_apply_set:
  "''_id'' \<notin> fst ` set upd \<Longrightarrow> doc_id (apply_set upd d) = doc_id d"
  unfolding apply_set_def
proof (induction upd arbitrary: d)
  case Nil
  then show ?case by simp
next
  case (Cons kv upd)
  then show ?case by (simp add: doc_id_update serialize_field_def)
qed

lemma map_update_first:
  "(\<And>x. g (f x) = g x) \<Longrightarrow> map g (update_first P f xs) = map g xs"
  by (induction xs) simp_all

lemma set_remove_first: "set (remove_first P xs) \<subseteq> set xs"
  by (induction xs) auto

lemma distinct_remove_first:
  "distinct (map g xs) \<Longrightarrow> distinct (map g (remove_first P xs))"
proof (induction xs)
  case Nil
  then show ?case by simp
next
  case (Cons x xs)
  then show ?case using set_remove_first [of P xs] by auto
qed

lemma insertOne_distinct:
  assumes "\<forall>c. distinct (map doc_id (colls w c))"
  shows "\<forall>c. distinct (map doc_id (colls (snd (insertOne e c' doc w)) c))"
  using assms by (simp add: insertOne_def Let_def split: option.splits)

lemma updateOne_distinct:
  assumes "\<forall>c. distinct (map doc_id (colls w c))" and "''_id'' \<notin> fst ` set upd"
  shows "\<forall>c. distinct (map doc_id (colls (snd (updateOne e c' flt upd w)) c))"
  using assms
  by (simp add: updateOne_def map_update_first doc_id_apply_set split: option.splits)

lemma deleteOne_distinct:
  assumes "\<forall>c. distinct (map doc_id (colls w c))"
  shows "\<forall>c. distinct (map doc_id (colls (snd (deleteOne e c' flt w)) c))"
  using assms
  by (simp add: deleteOne_def distinct_remove_first split: option.splits)

lemma keeps_returnE: "keeps I (returnE x)"
  by (simp add: keeps_def returnE_def)

lemma keeps_liftE: "keeps I (liftE r)"
  by (simp add: keeps_def liftE_def)

lemma keeps_clientPromise: "keeps I (clientPromise e)"
  by (simp add: keeps_def clientPromise_def returnE_def throwE_def split: option.splits)

lemma keeps_bindE:
  assumes "keeps I m" and "\<And>x. keeps I (f x)"
  shows "keeps I (bindE m f)"
  unfolding keeps_def
proof (intro allI impI)
  fix w
  assume "I w"
  with assms(1) have mid: "I (snd (m w))" by (simp add: keeps_def)
  show "I (snd (bindE m f w))"
  proof (cases "m w")
    case (Pair r w')
    with mid have "I w'" by simp
    with assms(2) Pair show ?thesis
      by (cases r) (simp_all add: bindE_def keeps_def)
  qed
qed

lemma keeps_try_catch:
  assumes "keeps I m"
  shows "keeps I (try_catch m internal_error)"
  using assms
  by (auto simp add: keeps_def try_catch_internal_error split: prod.splits sum.splits)

lemma keeps_if: "keeps I a \<Longrightarrow> keeps I b \<Longrightarrow> keeps I (if c then a else b)"
  by simp

lemma keeps_findOne: "keeps ids_distinct (findOne e c flt)"
  by (simp add: keeps_def ids_distinct_def findOne_def split: option.splits)

lemma keeps_find_toArray: "keeps ids_distinct (find_toArray e c flt lim)"
  by (simp add: keeps_def ids_distinct_def find_toArray_def Let_def split: option.splits)

lemma keeps_insertOne: "keeps ids_distinct (insertOne e c doc)"
  using insertOne_distinct by (simp add: keeps_def ids_distinct_def)

lemma keeps_updateOne: "''_id'' \<notin> fst ` set upd \<Longrightarrow> keeps ids_distinct (updateOne e c flt upd)"
  using updateOne_distinct by (simp add: keeps_def ids_distinct_def)

lemma keeps_deleteOne: "keeps ids_distinct (deleteOne e c flt)"
  using deleteOne_distinct by (simp add: keeps_def ids_distinct_def)

lemmas keeps_rules = keeps_try_catch keeps_bindE keeps_if keeps_returnE keeps_liftE
  keeps_clientPromise keeps_findOne keeps_find_toArray keeps_insertOne keeps_updateOne
  keeps_deleteOne

lemma handler_keeps_ids_distinct: "keeps ids_distinct (handler e v rt b)"
proof (cases "(e, v, rt, b)" rule: handler.cases)
qed (auto simp add: handler_defs try_defs movie_PUT_document_def theater_PUT_document_def
       intro!: keeps_rules split: option.splits)

lemma serve_keeps_ids_distinct:
  "ids_distinct w \<Longrightarrow> ids_distinct (snd (serve e rq w))"
  using handler_keeps_ids_distinct [of e "req_verb rq" "req_route rq" "req_json rq"]
  by (simp add: keeps_def serve_def)

subsection \<open>Throwing steps\<close>

lemma internal_error_run:
  "internal_error t w =
     (Inr (NextResponse_json
        \<lparr>status = 500, message = Some ''Internal Server Error'', data = None,
         error = Some (err_message t)\<rparr>), w)"
  by (simp add: internal_error_def returnE_def)

lemma theaters_GET_connect_fault:
  "connect_error e = Some t \<Longrightarrow> theaters_GET e w = internal_error t w"
  by (simp add: theaters_GET_def theaters_GET_try_def io_defs)

lemma theaters_GET_op_fault:
  "connect_error e = None \<Longrightarrow> op_error e = Some t \<Longrightarrow>
     theaters_GET e w = internal_error t (logged (Find ''theaters'') w)"
  by (simp add: theaters_GET_def theaters_GET_try_def io_defs find_toArray_def)

lemma movie_GET_connect_fault:
  "connect_error e = Some t \<Longrightarrow> movie_GET e i w = internal_error t w"
  by (simp add: movie_GET_def movie_GET_try_def io_defs)

lemma movie_GET_op_fault:
  "connect_error e = None \<Longrightarrow> op_error e = Some t \<Longrightarrow> ObjectId_isValid i \<Longrightarrow>
     movie_GET e i w = internal_error t (logged (FindOne ''movies'') w)"
  by (auto simp add: movie_GET_def movie_GET_try_def io_defs findOne_def ObjectId_isValid_def
      split: sum.splits)

lemma movie_GET_invalid_iff:
  "fst (movie_GET e i w) = Inr (NextResponse_json \<lparr>status = 400, message = Some ''Invalid movie ID'', data = None, error = Some ''ID format is incorrect''\<rparr>) \<longleftrightarrow>
     \<not> ObjectId_isValid i \<and> connect_error e = None"
  by (auto simp add: movie_GET_def movie_GET_try_def io_defs findOne_def NextResponse_json_def
      ObjectId_isValid_def split: option.splits sum.splits)

lemma movie_PUT_connect_fault:
  "connect_error e = Some t \<Longrightarrow> movie_PUT e i w = internal_error t w"
  by (simp add: movie_PUT_def movie_PUT_try_def io_defs)

lemma movie_PUT_op_fault:
  "connect_error e = None \<Longrightarrow> op_error e = Some t \<Longrightarrow> ObjectId_isValid i \<Longrightarrow>
     movie_PUT e i w = internal_error t (logged (UpdateOne ''movies'') w)"
  by (auto simp add: movie_PUT_def movie_PUT_try_def io_defs updateOne_def ObjectId_isValid_def
      split: sum.splits)

lemma movie_PUT_invalid_iff:
  "fst (movie_PUT e i w) = Inr (NextResponse_json \<lparr>status = 400, message = Some ''Invalid movie ID'', data = None, error = Some ''ID format is incorrect''\<rparr>) \<longleftrightarrow>
     \<not> ObjectId_isValid i \<and> connect_error e = None"
  by (auto simp add: movie_PUT_def movie_PUT_try_def io_defs updateOne_def NextResponse_json_def
      ObjectId_isValid_def split: option.splits sum.splits)

lemma movie_DELETE_connect_fault:
  "connect_error e = Some t \<Longrightarrow> movie_DELETE e i w = internal_error t w"
  by (simp add: movie_DELETE_def movie_DELETE_try_def io_defs)

lemma movie_DELETE_op_fault:
  "connect_error e = None \<Longrightarrow> op_error e = Some t \<Longrightarrow> ObjectId_isValid i \<Longrightarrow>
     movie_DELETE e i w = internal_error t (logged (DeleteOne ''movies'') w)"
  by (auto simp add: movie_DELETE_def movie_DELETE_try_def io_defs deleteOne_def ObjectId_isValid_def
      split: sum.splits)

lemma movie_DELETE_invalid_iff:
  "fst (movie_DELETE e i w) = Inr (NextResponse_json \<lparr>status = 400, message = Some ''Invalid movie ID'', data = None, error = Some ''ID format is incorrect''\<rparr>) \<longleftrightarrow>
     \<not> ObjectId_isValid i \<and> connect_error e = None"
  by (auto simp add: movie_DELETE_def movie_DELETE_try_def io_defs deleteOne_def NextResponse_json_def
      ObjectId_isValid_def split: option.splits sum.splits)

lemma movie_POST_connect_fault:
  "connect_error e = Some t \<Longrightarrow> movie_POST e w = internal_error t w"
  by (simp add: movie_POST_def movie_POST_try_def io_defs)

lemma movie_POST_op_fault:
  "connect_error e = None \<Longrightarrow> op_error e = Some t \<Longrightarrow>
     movie_POST e w = internal_error t (logged (InsertOne ''movies'') w)"
  by (simp add: movie_POST_def movie_POST_try_def io_defs insertOne_def)

lemma movie_POST_duplicate:
  "connect_error e = None \<Longrightarrow> op_error e = None \<Longrightarrow>
   JObjectId (created_pk e) \<in> set (map doc_id (colls w ''movies'')) \<Longrightarrow>
     movie_POST e w =
       internal_error (Error ''E11000 duplicate key error collection'')
         (logged (InsertOne ''movies'') w)"
  by (simp add: movie_POST_def movie_POST_try_def io_defs insertOne_def with_id_def doc_id_def
      movie_POST_document_def)

lemma theater_GET_connect_fault:
  "connect_error e = Some t \<Longrightarrow> theater_GET e i w = internal_error t w"
  by (simp add: theater_GET_def theater_GET_try_def io_defs)

lemma theater_GET_op_fault:
  "connect_error e = None \<Longrightarrow> op_error e = Some t \<Longrightarrow> ObjectId_isValid i \<Longrightarrow>
     theater_GET e i w = internal_error t (logged (FindOne ''theaters'') w)"
  by (auto simp add: theater_GET_def theater_GET_try_def io_defs findOne_def ObjectId_isValid_def
      split: sum.splits)

lemma theater_GET_invalid_iff:
  "fst (theater_GET e i w) = Inr (NextResponse_json \<lparr>status = 400, message = Some ''Invalid theater ID'', data = None, error = Some ''ID format is incorrect''\<rparr>) \<longleftrightarrow>
     \<not> ObjectId_isValid i \<and> connect_error e = None"
  by (auto simp add: theater_GET_def theater_GET_try_def io_defs findOne_def NextResponse_json_def
      ObjectId_isValid_def split: option.splits sum.splits)

lemma theater_PUT_connect_fault:
  "connect_error e = Some t \<Longrightarrow> theater_PUT e i w = internal_error t w"
  by (simp add: theater_PUT_def theater_PUT_try_def io_defs)

lemma theater_PUT_op_fault:
  "connect_error e = None \<Longrightarrow> op_error e = Some t \<Longrightarrow> ObjectId_isValid i \<Longrightarrow>
     theater_PUT e i w = internal_error t (logged (UpdateOne ''theaters'') w)"
  by (auto simp add: theater_PUT_def theater_PUT_try_def io_defs updateOne_def ObjectId_isValid_def
      split: sum.splits)

lemma theater_PUT_invalid_iff:
  "fst (theater_PUT e i w) = Inr (NextResponse_json \<lparr>status = 400, message = Some ''Invalid theater ID'', data = None, error = Some ''ID format is incorrect''\<rparr>) \<longleftrightarrow>
     \<not> ObjectId_isValid i \<and> connect_error e = None"
  by (auto simp add: theater_PUT_def theater_PUT_try_def io_defs updateOne_def NextResponse_json_def
      ObjectId_isValid_def split: option.splits sum.splits)

lemma theater_DELETE_connect_fault:
  "connect_error e = Some t \<Longrightarrow> theater_DELETE e i w = internal_error t w"
  by (simp add: theater_DELETE_def theater_DELETE_try_def io_defs)

lemma theater_DELETE_op_fault:
  "connect_error e = None \<Longrightarrow> op_error e = Some t \<Longrightarrow> ObjectId_isValid i \<Longrightarrow>
     theater_DELETE e i w = internal_error t (logged (DeleteOne ''theaters'') w)"
  by (auto simp add: theater_DELETE_def theater_DELETE_try_def io_defs deleteOne_def ObjectId_isValid_def
      split: sum.splits)

lemma theater_DELETE_invalid_iff:
  "fst (theater_DELETE e i w) = Inr (NextResponse_json \<lparr>status = 400, message = Some ''Invalid theater ID'', data = None, error = Some ''ID format is incorrect''\<rparr>) \<longleftrightarrow>
     \<not> ObjectId_isValid i \<and> connect_error e = None"
  by (auto simp add: theater_DELETE_def theater_DELETE_try_def io_defs deleteOne_def NextResponse_json_def
      ObjectId_isValid_def split: option.splits sum.splits)

lemma theater_POST_connect_fault:
  "connect_error e = Some t \<Longrightarrow> theater_POST e w = internal_error t w"
  by (simp add: theater_POST_def theater_POST_try_def io_defs)

lemma theater_POST_op_fault:
  "connect_error e = None \<Longrightarrow> op_error e = Some t \<Longrightarrow>
     theater_POST e w = internal_error t (logged (InsertOne ''theaters'') w)"
  by (simp add: theater_POST_def theater_POST_try_def io_defs insertOne_def)

lemma theater_POST_duplicate:
  "connect_error e = None \<Longrightarrow> op_error e = None \<Longrightarrow>
   JObjectId (created_pk e) \<in> set (map doc_id (colls w ''theaters'')) \<Longrightarrow>
     theater_POST e w =
       internal_error (Error ''E11000 duplicate key error collection'')
         (logged (InsertOne ''theaters'') w)"
  by (simp add: theater_POST_def theater_POST_try_def io_defs insertOne_def with_id_def doc_id_def
      theater_POST_document_def)

lemma comments_GET_connect_fault:
  "connect_error e = Some t \<Longrightarrow> comments_GET e i w = internal_error t w"
  by (simp add: comments_GET_def comments_GET_try_def io_defs)

lemma comments_GET_op_fault:
  "connect_error e = None \<Longrightarrow> op_error e = Some t \<Longrightarrow> ObjectId_isValid i \<Longrightarrow>
     comments_GET e i w = internal_error t (logged (Find ''comments'') w)"
  by (auto simp add: comments_GET_def comments_GET_try_def io_defs find_toArray_def
      ObjectId_isValid_def split: sum.splits)

lemma comments_GET_invalid_iff:
  "fst (comments_GET e i w) = Inr (NextResponse_json \<lparr>status = 400, message = Some ''Invalid movie ID'', data = None, error = Some ''ID format is incorrect''\<rparr>) \<longleftrightarrow>
     \<not> ObjectId_isValid i \<and> connect_error e = None"
  by (auto simp add: comments_GET_def comments_GET_try_def io_defs find_toArray_def
      NextResponse_json_def ObjectId_isValid_def split: option.splits sum.splits)

lemma comment_GET_connect_fault:
  "connect_error e = Some t \<Longrightarrow> comment_GET e idMovie idComment w = internal_error t w"
  by (simp add: comment_GET_def comment_GET_try_def io_defs)

lemma comment_GET_op_fault:
  "connect_error e = None \<Longrightarrow> op_error e = Some t \<Longrightarrow>
   ObjectId_isValid idMovie \<Longrightarrow> ObjectId_isValid idComment \<Longrightarrow>
     comment_GET e idMovie idComment w = internal_error t (logged (FindOne ''comments'') w)"
  by (auto simp add: comment_GET_def comment_GET_try_def io_defs findOne_def
      ObjectId_isValid_def split: sum.splits)

lemma comment_GET_invalid_iff:
  "fst (comment_GET e idMovie idComment w) = Inr (NextResponse_json \<lparr>status = 400, message = Some ''Invalid ID format'', data = None, error = None\<rparr>) \<longleftrightarrow>
     (\<not> ObjectId_isValid idMovie \<or> \<not> ObjectId_isValid idComment) \<and> connect_error e = None"
  by (auto simp add: comment_GET_def comment_GET_try_def io_defs findOne_def
      NextResponse_json_def ObjectId_isValid_def split: option.splits sum.splits)

lemma comment_DELETE_connect_fault:
  "connect_error e = Some t \<Longrightarrow> ObjectId_isValid idMovie \<Longrightarrow> ObjectId_isValid idComment \<Longrightarrow>
     comment_DELETE e idMovie idComment w = internal_error t w"
  by (simp add: comment_DELETE_def comment_DELETE_try_def io_defs)

lemma comment_DELETE_op_fault:
  "connect_error e = None \<Longrightarrow> op_error e = Some t \<Longrightarrow>
   ObjectId_isValid idMovie \<Longrightarrow> ObjectId_isValid idComment \<Longrightarrow>
     comment_DELETE e idMovie idComment w = internal_error t (logged (DeleteOne ''comments'') w)"
  by (auto simp add: comment_DELETE_def comment_DELETE_try_def io_defs deleteOne_def
      ObjectId_isValid_def split: sum.splits)

lemma comment_DELETE_invalid_iff:
  "fst (comment_DELETE e idMovie idComment w) = Inr (NextResponse_json \<lparr>status = 400, message = Some ''Invalid ID format'', data = None, error = None\<rparr>) \<longleftrightarrow>
     \<not> ObjectId_isValid idMovie \<or> \<not> ObjectId_isValid idComment"
  by (auto simp add: comment_DELETE_def comment_DELETE_try_def io_defs deleteOne_def
      NextResponse_json_def ObjectId_isValid_def split: option.splits sum.splits)

lemma comment_POST_connect_fault:
  "connect_error e = Some t \<Longrightarrow> ObjectId_isValid idMovie \<Longrightarrow>
     comment_POST e idMovie ''null'' w = internal_error t w"
  by (simp add: comment_POST_def comment_POST_try_def io_defs)

lemma comment_POST_op_fault:
  "connect_error e = None \<Longrightarrow> op_error e = Some t \<Longrightarrow> ObjectId_isValid idMovie \<Longrightarrow>
     comment_POST e idMovie ''null'' w = internal_error t (logged (InsertOne ''comments'') w)"
  by (auto simp add: comment_POST_def comment_POST_try_def io_defs insertOne_def
      ObjectId_isValid_def split: sum.splits)

lemma comment_POST_duplicate:
  "connect_error e = None \<Longrightarrow> op_error e = None \<Longrightarrow> ObjectId_isValid idMovie \<Longrightarrow>
   JObjectId (created_pk e) \<in> set (map doc_id (colls w ''comments'')) \<Longrightarrow>
     comment_POST e idMovie ''null'' w =
       internal_error (Error ''E11000 duplicate key error collection'')
         (logged (InsertOne ''comments'') w)"
  by (auto simp add: comment_POST_def comment_POST_try_def io_defs insertOne_def with_id_def
      doc_id_def ObjectId_isValid_def split: sum.splits)

lemma comment_POST_invalid_iff:
  "fst (comment_POST e idMovie ''null'' w) = Inr (NextResponse_json \<lparr>status = 400, message = Some ''Invalid movie ID format'', data = None, error = None\<rparr>) \<longleftrightarrow>
     \<not> ObjectId_isValid idMovie"
  by (auto simp add: comment_POST_def comment_POST_try_def io_defs insertOne_def
      NextResponse_json_def ObjectId_isValid_def Let_def split: option.splits sum.splits)

lemma comment_PUT_json_throws:
  "comment_PUT e (Inl t) idMovie idComment w = internal_error t w"
  by (simp add: comment_PUT_def comment_PUT_try_def io_defs)

lemma comment_PUT_destructure_throws:
  "destructure_text parsed = Inl t \<Longrightarrow>
     comment_PUT e (Inr parsed) idMovie idComment w = internal_error t w"
  by (simp add: comment_PUT_def comment_PUT_try_def io_defs)

lemma comment_PUT_connect_fault:
  "connect_error e = Some t \<Longrightarrow> destructure_text parsed = Inr newText \<Longrightarrow>
   ObjectId_isValid idMovie \<Longrightarrow> ObjectId_isValid idComment \<Longrightarrow>
     comment_PUT e (Inr parsed) idMovie idComment w = internal_error t w"
  by (simp add: comment_PUT_def comment_PUT_try_def io_defs)

lemma comment_PUT_op_fault:
  "connect_error e = None \<Longrightarrow> op_error e = Some t \<Longrightarrow>
   destructure_text parsed = Inr newText \<Longrightarrow>
   ObjectId_isValid idMovie \<Longrightarrow> ObjectId_isValid idComment \<Longrightarrow>
     comment_PUT e (Inr parsed) idMovie idComment w =
       internal_error t (logged (UpdateOne ''comments'') w)"
  by (auto simp add: comment_PUT_def comment_PUT_try_def io_defs updateOne_def
      ObjectId_isValid_def split: sum.splits)

lemma comment_PUT_invalid_iff:
  "fst (comment_PUT e rj idMovie idComment w) = Inr (NextResponse_json \<lparr>status = 400, message = Some ''Invalid ID format'', data = None, error = None\<rparr>) \<longleftrightarrow>
     (\<not> ObjectId_isValid idMovie \<or> \<not> ObjectId_isValid idComment) \<and>
     (\<exists>parsed newText. rj = Inr parsed \<and> destructure_text parsed = Inr newText)"
  by (cases rj; cases "destructure_text (projr rj)")
     (auto simp add: comment_PUT_def comment_PUT_try_def io_defs updateOne_def
        NextResponse_json_def ObjectId_isValid_def split: option.splits sum.splits)

section \<open>Facts about the example data\<close>

lemma new_ObjectId_ex_movie_id: "new_ObjectId ex_movie_id = Inr ex_movie_oid"
  by (simp add: new_ObjectId_def ex_movie_id_def ex_movie_oid_def isHexDigit_def hexval_def)

lemma new_ObjectId_ex_comment_id: "new_ObjectId ex_comment_id = Inr ex_comment_oid"
  by (simp add: new_ObjectId_def ex_comment_id_def ex_comment_oid_def isHexDigit_def hexval_def)

lemma new_ObjectId_ex_theater_id: "new_ObjectId ex_theater_id = Inr ex_theater_oid"
  by (simp add: new_ObjectId_def ex_theater_id_def ex_theater_oid_def isHexDigit_def hexval_def)

lemma new_ObjectId_absent_id: "new_ObjectId absent_id = Inr absent_oid"
  by (simp add: new_ObjectId_def absent_id_def absent_oid_def isHexDigit_def hexval_def)

lemma not_valid_not_an_id: "\<not> ObjectId_isValid ''not-an-id''"
  by (simp add: ObjectId_isValid_def new_ObjectId_def)

lemmas ex_defs = ex_env_def failing_env_def offline_env_def ex_world_def ex_movie_def
  ex_theater_def ex_comment_def ex_movie_oid_def ex_comment_oid_def ex_theater_oid_def
  absent_oid_def

section \<open>The claims\<close>

subsection \<open>C1: the cap on list endpoints\<close>

text \<open>
  C1, as stated, fails: \<open>GET /movies/{idMovie}/comments\<close> puts no limit on its cursor.
  With eleven comments on a movie, the array in the envelope's \<open>data\<close> field has eleven
  documents, more than the cap of 10.
\<close>

theorem comments_GET_over_cap_counterexample:
  "\<not> length (listed (comments_GET ex_env ex_movie_id crowded_world)) \<le> 10"
  by (simp add: comments_GET_lists_all [OF _ _ new_ObjectId_ex_movie_id] ex_env_def
      listed_def envelope_of_def NextResponse_json_def crowded_world_def matches_def)

text \<open>
  C1, as amended: \<open>GET /theaters\<close> never lists more than 10 documents, and when the store
  answers it lists the first 10 theaters in store order; \<open>GET /movies/{idMovie}/comments\<close>
  with a well-formed id lists every comment whose \<open>movie_id\<close> is that id, without a cap.
\<close>

theorem list_endpoints_cap:
  "length (listed (theaters_GET e w)) \<le> 10 \<and>
   (connect_error e = None \<and> op_error e = None \<longrightarrow>
      listed (theaters_GET e w) = map JObject (take 10 (colls w ''theaters''))) \<and>
   (connect_error e = None \<and> op_error e = None \<and> new_ObjectId idMovie = Inr mid \<longrightarrow>
      listed (comments_GET e idMovie w) =
        map JObject (filter (matches [(''movie_id'', JObjectId mid)]) (colls w ''comments'')))"
proof (intro conjI impI)
  show "length (listed (theaters_GET e w)) \<le> 10"
    by (rule theaters_GET_at_most_ten)
next
  assume "connect_error e = None \<and> op_error e = None"
  then show "listed (theaters_GET e w) = map JObject (take 10 (colls w ''theaters''))"
    by (simp add: theaters_GET_lists_ten listed_def envelope_of_def NextResponse_json_def)
next
  assume "connect_error e = None \<and> op_error e = None \<and> new_ObjectId idMovie = Inr mid"
  then show "listed (comments_GET e idMovie w) =
      map JObject (filter (matches [(''movie_id'', JObjectId mid)]) (colls w ''comments''))"
    by (simp add: comments_GET_lists_all listed_def envelope_of_def NextResponse_json_def)
qed

text \<open>C1, witness: the crowded database, where twelve theaters are cut to ten and all eleven
  comments are listed.\<close>

theorem list_endpoints_cap_witness:
  "connect_error ex_env = None \<and> op_error ex_env = None \<and>
   new_ObjectId ex_movie_id = Inr ex_movie_oid \<and>
   length (colls crowded_world ''theaters'') = 12 \<and>
   length (listed (theaters_GET ex_env crowded_world)) = 10 \<and>
   length (listed (comments_GET ex_env ex_movie_id crowded_world)) = 11"
  using list_endpoints_cap [where e = ex_env and w = crowded_world and idMovie = ex_movie_id
      and mid = ex_movie_oid] new_ObjectId_ex_movie_id
  by (simp add: ex_env_def crowded_world_def matches_def)

subsection \<open>C2: the identifier validator\<close>

text \<open>
  C2, as stated, fails in its second half: a string the validator rejects is not always
  answered with the invalid-format response.  \<open>PUT\<close> on a comment destructures the request
  body before its guard, and the item handlers await the client before theirs, so a
  rejected id can be answered with the 500 envelope.
\<close>

theorem rejected_id_counterexample:
  "\<not> ObjectId_isValid ''573a1390f29313caabcd680g'' \<and>
   fst (comment_PUT ex_env (Inr JNull) ex_movie_id ''573a1390f29313caabcd680g'' ex_world) =
     Inr (NextResponse_json
       \<lparr>status = 500, message = Some ''Internal Server Error'', data = None,
        error = Some ''Cannot destructure property text of null''\<rparr>) \<and>
   fst (theater_DELETE offline_env ''573a1390f29313caabcd680g'' ex_world) =
     Inr (NextResponse_json
       \<lparr>status = 500, message = Some ''Internal Server Error'', data = None,
        error = Some ''getaddrinfo ENOTFOUND''\<rparr>)"
  by (simp add: comment_PUT_destructure_throws theater_DELETE_connect_fault internal_error_run
      destructure_text_def offline_env_def ex_env_def ObjectId_isValid_def new_ObjectId_def
      isHexDigit_def)

text \<open>
  C2, as amended: the validator accepts a string exactly when it has 24 characters, each of
  them a hexadecimal digit.  It is the guard of every id-based handler: item \<open>GET\<close>, \<open>PUT\<close>
  and \<open>DELETE\<close> on movies and on theaters, the comment list, comment \<open>GET\<close>, \<open>PUT\<close> and
  \<open>DELETE\<close>, and comment \<open>POST\<close> on the sentinel.  Each of them answers with its
  invalid-format envelope exactly when the validator rejects a path id and the steps the
  handler runs before the guard have succeeded: the client promise has resolved, where the
  handler awaits it first; the body has parsed and destructured, for comment \<open>PUT\<close>; nothing,
  for comment \<open>DELETE\<close> and \<open>POST\<close>.  An accepted id is never answered with that envelope.
\<close>

theorem identifier_validator:
  "(ObjectId_isValid s \<longleftrightarrow>
      length s = 24 \<and> (\<forall>c\<in>set s. c \<in> set ''0123456789abcdefABCDEF'')) \<and>
   (fst (movie_GET e s w) = Inr (NextResponse_json \<lparr>status = 400, message = Some ''Invalid movie ID'', data = None, error = Some ''ID format is incorrect''\<rparr>)
      \<longleftrightarrow> \<not> ObjectId_isValid s \<and> connect_error e = None) \<and>
   (fst (movie_PUT e s w) = Inr (NextResponse_json \<lparr>status = 400, message = Some ''Invalid movie ID'', data = None, error = Some ''ID format is incorrect''\<rparr>)
      \<longleftrightarrow> \<not> ObjectId_isValid s \<and> connect_error e = None) \<and>
   (fst (movie_DELETE e s w) = Inr (NextResponse_json \<lparr>status = 400, message = Some ''Invalid movie ID'', data = None, error = Some ''ID format is incorrect''\<rparr>)
      \<longleftrightarrow> \<not> ObjectId_isValid s \<and> connect_error e = None) \<and>
   (fst (theater_GET e s w) = Inr (NextResponse_json \<lparr>status = 400, message = Some ''Invalid theater ID'', data = None, error = Some ''ID format is incorrect''\<rparr>)
      \<longleftrightarrow> \<not> ObjectId_isValid s \<and> connect_error e = None) \<and>
   (fst (theater_PUT e s w) = Inr (NextResponse_json \<lparr>status = 400, message = Some ''Invalid theater ID'', data = None, error = Some ''ID format is incorrect''\<rparr>)
      \<longleftrightarrow> \<not> ObjectId_isValid s \<and> connect_error e = None) \<and>
   (fst (theater_DELETE e s w) = Inr (NextResponse_json \<lparr>status = 400, message = Some ''Invalid theater ID'', data = None, error = Some ''ID format is incorrect''\<rparr>)
      \<longleftrightarrow> \<not> ObjectId_isValid s \<and> connect_error e = None) \<and>
   (fst (comments_GET e s w) = Inr (NextResponse_json \<lparr>status = 400, message = Some ''Invalid movie ID'', data = None, error = Some ''ID format is incorrect''\<rparr>)
      \<longleftrightarrow> \<not> ObjectId_isValid s \<and> connect_error e = None) \<and>
   (fst (comment_GET e s s' w) = Inr (NextResponse_json \<lparr>status = 400, message = Some ''Invalid ID format'', data = None, error = None\<rparr>)
      \<longleftrightarrow> (\<not> ObjectId_isValid s \<or> \<not> ObjectId_isValid s') \<and> connect_error e = None) \<and>
   (fst (comment_PUT e rj s s' w) = Inr (NextResponse_json \<lparr>status = 400, message = Some ''Invalid ID format'', data = None, error = None\<rparr>)
      \<longleftrightarrow> (\<not> ObjectId_isValid s \<or> \<not> ObjectId_isValid s') \<and>
          (\<exists>parsed newText. rj = Inr parsed \<and> destructure_text parsed = Inr newText)) \<and>
   (fst (comment_DELETE e s s' w) = Inr (NextResponse_json \<lparr>status = 400, message = Some ''Invalid ID format'', data = None, error = None\<rparr>)
      \<longleftrightarrow> \<not> ObjectId_isValid s \<or> \<not> ObjectId_isValid s') \<and>
   (fst (comment_POST e s ''null'' w) = Inr (NextResponse_json \<lparr>status = 400, message = Some ''Invalid movie ID format'', data = None, error = None\<rparr>)
      \<longleftrightarrow> \<not> ObjectId_isValid s)"
proof (intro conjI)
  show "ObjectId_isValid s \<longleftrightarrow>
      length s = 24 \<and> (\<forall>c\<in>set s. c \<in> set ''0123456789abcdefABCDEF'')"
    by (rule ObjectId_isValid_iff_aux)
  show "fst (movie_GET e s w) = Inr (NextResponse_json \<lparr>status = 400, message = Some ''Invalid movie ID'', data = None, error = Some ''ID format is incorrect''\<rparr>)
      \<longleftrightarrow> \<not> ObjectId_isValid s \<and> connect_error e = None"
    by (rule movie_GET_invalid_iff)
  show "fst (movie_PUT e s w) = Inr (NextResponse_json \<lparr>status = 400, message = Some ''Invalid movie ID'', data = None, error = Some ''ID format is incorrect''\<rparr>)
      \<longleftrightarrow> \<not> ObjectId_isValid s \<and> connect_error e = None"
    by (rule movie_PUT_invalid_iff)
  show "fst (movie_DELETE e s w) = Inr (NextResponse_json \<lparr>status = 400, message = Some ''Invalid movie ID'', data = None, error = Some ''ID format is incorrect''\<rparr>)
      \<longleftrightarrow> \<not> ObjectId_isValid s \<and> connect_error e = None"
    by (rule movie_DELETE_invalid_iff)
  show "fst (theater_GET e s w) = Inr (NextResponse_json \<lparr>status = 400, message = Some ''Invalid theater ID'', data = None, error = Some ''ID format is incorrect''\<rparr>)
      \<longleftrightarrow> \<not> ObjectId_isValid s \<and> connect_error e = None"
    by (rule theater_GET_invalid_iff)
  show "fst (theater_PUT e s w) = Inr (NextResponse_json \<lparr>status = 400, message = Some ''Invalid theater ID'', data = None, error = Some ''ID format is incorrect''\<rparr>)
      \<longleftrightarrow> \<not> ObjectId_isValid s \<and> connect_error e = None"
    by (rule theater_PUT_invalid_iff)
  show "fst (theater_DELETE e s w) = Inr (NextResponse_json \<lparr>status = 400, message = Some ''Invalid theater ID'', data = None, error = Some ''ID format is incorrect''\<rparr>)
      \<longleftrightarrow> \<not> ObjectId_isValid s \<and> connect_error e = None"
    by (rule theater_DELETE_invalid_iff)
  show "fst (comments_GET e s w) = Inr (NextResponse_json \<lparr>status = 400, message = Some ''Invalid movie ID'', data = None, error = Some ''ID format is incorrect''\<rparr>)
      \<longleftrightarrow> \<not> ObjectId_isValid s \<and> connect_error e = None"
    by (rule comments_GET_invalid_iff)
  show "fst (comment_GET e s s' w) = Inr (NextResponse_json \<lparr>status = 400, message = Some ''Invalid ID format'', data = None, error = None\<rparr>)
      \<longleftrightarrow> (\<not> ObjectId_isValid s \<or> \<not> ObjectId_isValid s') \<and> connect_error e = None"
    by (rule comment_GET_invalid_iff)
  show "fst (comment_PUT e rj s s' w) = Inr (NextResponse_json \<lparr>status = 400, message = Some ''Invalid ID format'', data = None, error = None\<rparr>)
      \<longleftrightarrow> (\<not> ObjectId_isValid s \<or> \<not> ObjectId_isValid s') \<and>
          (\<exists>parsed newText. rj = Inr parsed \<and> destructure_text parsed = Inr newText)"
    by (rule comment_PUT_invalid_iff)
  show "fst (comment_DELETE e s s' w) = Inr (NextResponse_json \<lparr>status = 400, message = Some ''Invalid ID format'', data = None, error = None\<rparr>)
      \<longleftrightarrow> \<not> ObjectId_isValid s \<or> \<not> ObjectId_isValid s'"
    by (rule comment_DELETE_invalid_iff)
  show "fst (comment_POST e s ''null'' w) = Inr (NextResponse_json \<lparr>status = 400, message = Some ''Invalid movie ID format'', data = None, error = None\<rparr>)
      \<longleftrightarrow> \<not> ObjectId_isValid s"
    by (rule comment_POST_invalid_iff)
qed

text \<open>C2, witness: a 24-digit identifier is accepted and never answered with the
  invalid-format envelope; a string with a letter outside the digits is rejected and,
  the earlier steps succeeding, is answered with it by an update of a movie and of a
  comment.\<close>

theorem identifier_validator_witness:
  "length ex_movie_id = 24 \<and> set ex_movie_id \<subseteq> set ''0123456789abcdefABCDEF'' \<and>
   ObjectId_isValid ex_movie_id \<and>
   fst (movie_GET ex_env ex_movie_id ex_world) \<noteq> Inr (NextResponse_json \<lparr>status = 400, message = Some ''Invalid movie ID'', data = None, error = Some ''ID format is incorrect''\<rparr>) \<and>
   fst (movie_PUT ex_env ex_movie_id ex_world) \<noteq> Inr (NextResponse_json \<lparr>status = 400, message = Some ''Invalid movie ID'', data = None, error = Some ''ID format is incorrect''\<rparr>) \<and>
   length ''573a1390f29313caabcd680g'' = 24 \<and>
   \<not> ObjectId_isValid ''573a1390f29313caabcd680g'' \<and>
   connect_error ex_env = None \<and>
   destructure_text (JObject [(''text'', JString ''edited'')]) = Inr (JString ''edited'') \<and>
   fst (movie_PUT ex_env ''573a1390f29313caabcd680g'' ex_world) = Inr (NextResponse_json \<lparr>status = 400, message = Some ''Invalid movie ID'', data = None, error = Some ''ID format is incorrect''\<rparr>) \<and>
   fst (comment_PUT ex_env (Inr (JObject [(''text'', JString ''edited'')])) ex_movie_id
          ''573a1390f29313caabcd680g'' ex_world) = Inr (NextResponse_json \<lparr>status = 400, message = Some ''Invalid ID format'', data = None, error = None\<rparr>)"
  using identifier_validator [where s = ex_movie_id and e = ex_env and w = ex_world]
    identifier_validator [where s = "''573a1390f29313caabcd680g''" and e = ex_env and w = ex_world]
    identifier_validator [where s = ex_movie_id and s' = "''573a1390f29313caabcd680g''"
      and e = ex_env and w = ex_world
      and rj = "Inr (JObject [(''text'', JString ''edited'')])"]
  by (simp add: ex_env_def ex_movie_id_def destructure_text_def)

subsection \<open>C3: malformed identifiers\<close>

text \<open>
  C3, as stated, fails: a handler that runs a step before its format check answers with the
  500 envelope when that step throws, whatever the path id.  \<open>PUT\<close> on a comment reads the
  request body first; the item handlers of movies and theaters await the client first.
\<close>

theorem malformed_id_counterexample:
  "\<not> ObjectId_isValid ''not-an-id'' \<and>
   fst (comment_PUT ex_env (Inl (Error ''Unexpected end of JSON input'')) ex_movie_id
          ''not-an-id'' ex_world) =
     Inr (NextResponse_json
       \<lparr>status = 500, message = Some ''Internal Server Error'', data = None,
        error = Some ''Unexpected end of JSON input''\<rparr>) \<and>
   fst (movie_GET offline_env ''not-an-id'' ex_world) =
     Inr (NextResponse_json
       \<lparr>status = 500, message = Some ''Internal Server Error'', data = None,
        error = Some ''getaddrinfo ENOTFOUND''\<rparr>)"
  using not_valid_not_an_id
  by (simp add: comment_PUT_def comment_PUT_try_def movie_GET_def movie_GET_try_def io_defs
      offline_env_def ex_env_def)

text \<open>
  C3, as amended: for a path id that fails the format check, every id-based handler leaves
  the database as it was and issues no driver call against any collection (the world,
  call log included, is returned unchanged); it answers with its invalid-format envelope
  (status 400) whenever the steps it runs before the check succeed: the client promise
  resolves (item handlers of movies and theaters, comment \<open>GET\<close>, comment list), the request
  body parses to a value that can be destructured (comment \<open>PUT\<close>); comment \<open>DELETE\<close> and
  comment \<open>POST\<close> on the sentinel check first and always answer 400.  When such an earlier
  step throws, the answer is the status 500 envelope with the thrown error's message.
\<close>

theorem malformed_id_short_circuit:
  "(\<not> ObjectId_isValid i \<longrightarrow>
      snd (movie_GET e i w) = w \<and>
      snd (movie_PUT e i w) = w \<and>
      snd (movie_DELETE e i w) = w \<and>
      snd (theater_GET e i w) = w \<and>
      snd (theater_PUT e i w) = w \<and>
      snd (theater_DELETE e i w) = w \<and>
      snd (comments_GET e i w) = w \<and>
      (connect_error e = None \<longrightarrow>
         fst (movie_GET e i w) = Inr (NextResponse_json \<lparr>status = 400, message = Some ''Invalid movie ID'', data = None, error = Some ''ID format is incorrect''\<rparr>) \<and>
         fst (movie_PUT e i w) = Inr (NextResponse_json \<lparr>status = 400, message = Some ''Invalid movie ID'', data = None, error = Some ''ID format is incorrect''\<rparr>) \<and>
         fst (movie_DELETE e i w) = Inr (NextResponse_json \<lparr>status = 400, message = Some ''Invalid movie ID'', data = None, error = Some ''ID format is incorrect''\<rparr>) \<and>
         fst (theater_GET e i w) = Inr (NextResponse_json \<lparr>status = 400, message = Some ''Invalid theater ID'', data = None, error = Some ''ID format is incorrect''\<rparr>) \<and>
         fst (theater_PUT e i w) = Inr (NextResponse_json \<lparr>status = 400, message = Some ''Invalid theater ID'', data = None, error = Some ''ID format is incorrect''\<rparr>) \<and>
         fst (theater_DELETE e i w) = Inr (NextResponse_json \<lparr>status = 400, message = Some ''Invalid theater ID'', data = None, error = Some ''ID format is incorrect''\<rparr>) \<and>
         fst (comments_GET e i w) = Inr (NextResponse_json \<lparr>status = 400, message = Some ''Invalid movie ID'', data = None, error = Some ''ID format is incorrect''\<rparr>)) \<and>
      (\<forall>t. connect_error e = Some t \<longrightarrow>
         fst (movie_GET e i w) = Inr (NextResponse_json \<lparr>status = 500, message = Some ''Internal Server Error'', data = None,
              error = Some (err_message t)\<rparr>) \<and>
         fst (movie_PUT e i w) = Inr (NextResponse_json \<lparr>status = 500, message = Some ''Internal Server Error'', data = None,
              error = Some (err_message t)\<rparr>) \<and>
         fst (movie_DELETE e i w) = Inr (NextResponse_json \<lparr>status = 500, message = Some ''Internal Server Error'', data = None,
              error = Some (err_message t)\<rparr>) \<and>
         fst (theater_GET e i w) = Inr (NextResponse_json \<lparr>status = 500, message = Some ''Internal Server Error'', data = None,
              error = Some (err_message t)\<rparr>) \<and>
         fst (theater_PUT e i w) = Inr (NextResponse_json \<lparr>status = 500, message = Some ''Internal Server Error'', data = None,
              error = Some (err_message t)\<rparr>) \<and>
         fst (theater_DELETE e i w) = Inr (NextResponse_json \<lparr>status = 500, message = Some ''Internal Server Error'', data = None,
              error = Some (err_message t)\<rparr>) \<and>
         fst (comments_GET e i w) = Inr (NextResponse_json \<lparr>status = 500, message = Some ''Internal Server Error'', data = None,
              error = Some (err_message t)\<rparr>)) \<and>
      comment_POST e i ''null'' w = (Inr (NextResponse_json \<lparr>status = 400, message = Some ''Invalid movie ID format'', data = None, error = None\<rparr>), w)) \<and>
   (\<not> ObjectId_isValid idMovie \<or> \<not> ObjectId_isValid idComment \<longrightarrow>
      snd (comment_GET e idMovie idComment w) = w \<and>
      snd (comment_PUT e rj idMovie idComment w) = w \<and>
      comment_DELETE e idMovie idComment w = (Inr (NextResponse_json \<lparr>status = 400, message = Some ''Invalid ID format'', data = None, error = None\<rparr>), w) \<and>
      (connect_error e = None \<longrightarrow>
         fst (comment_GET e idMovie idComment w) = Inr (NextResponse_json \<lparr>status = 400, message = Some ''Invalid ID format'', data = None, error = None\<rparr>)) \<and>
      (\<forall>t. connect_error e = Some t \<longrightarrow>
         fst (comment_GET e idMovie idComment w) = Inr (NextResponse_json \<lparr>status = 500, message = Some ''Internal Server Error'', data = None,
              error = Some (err_message t)\<rparr>)) \<and>
      (\<forall>parsed newText. rj = Inr parsed \<and> destructure_text parsed = Inr newText \<longrightarrow>
         fst (comment_PUT e rj idMovie idComment w) = Inr (NextResponse_json \<lparr>status = 400, message = Some ''Invalid ID format'', data = None, error = None\<rparr>)) \<and>
      (\<forall>t. rj = Inl t \<longrightarrow>
         fst (comment_PUT e rj idMovie idComment w) = Inr (NextResponse_json \<lparr>status = 500, message = Some ''Internal Server Error'', data = None,
              error = Some (err_message t)\<rparr>)) \<and>
      (\<forall>parsed t. rj = Inr parsed \<and> destructure_text parsed = Inl t \<longrightarrow>
         fst (comment_PUT e rj idMovie idComment w) = Inr (NextResponse_json \<lparr>status = 500, message = Some ''Internal Server Error'', data = None,
              error = Some (err_message t)\<rparr>)))"
proof (intro conjI impI allI)
  assume bad: "\<not> ObjectId_isValid i"
  show "snd (movie_GET e i w) = w" by (rule movie_GET_malformed(1) [OF bad])
  show "snd (movie_PUT e i w) = w" by (rule movie_PUT_malformed(1) [OF bad])
  show "snd (movie_DELETE e i w) = w" by (rule movie_DELETE_malformed(1) [OF bad])
  show "snd (theater_GET e i w) = w" by (rule theater_GET_malformed(1) [OF bad])
  show "snd (theater_PUT e i w) = w" by (rule theater_PUT_malformed(1) [OF bad])
  show "snd (theater_DELETE e i w) = w" by (rule theater_DELETE_malformed(1) [OF bad])
  show "snd (comments_GET e i w) = w" by (rule comments_GET_malformed(1) [OF bad])
  show "comment_POST e i ''null'' w = (Inr (NextResponse_json \<lparr>status = 400, message = Some ''Invalid movie ID format'', data = None, error = None\<rparr>), w)"
    by (rule comment_POST_malformed [OF bad])
  assume c: "connect_error e = None"
  show "fst (movie_GET e i w) = Inr (NextResponse_json \<lparr>status = 400, message = Some ''Invalid movie ID'', data = None, error = Some ''ID format is incorrect''\<rparr>)"
    by (rule movie_GET_malformed(2) [OF bad c])
  show "fst (movie_PUT e i w) = Inr (NextResponse_json \<lparr>status = 400, message = Some ''Invalid movie ID'', data = None, error = Some ''ID format is incorrect''\<rparr>)"
    by (rule movie_PUT_malformed(2) [OF bad c])
  show "fst (movie_DELETE e i w) = Inr (NextResponse_json \<lparr>status = 400, message = Some ''Invalid movie ID'', data = None, error = Some ''ID format is incorrect''\<rparr>)"
    by (rule movie_DELETE_malformed(2) [OF bad c])
  show "fst (theater_GET e i w) = Inr (NextResponse_json \<lparr>status = 400, message = Some ''Invalid theater ID'', data = None, error = Some ''ID format is incorrect''\<rparr>)"
    by (rule theater_GET_malformed(2) [OF bad c])
  show "fst (theater_PUT e i w) = Inr (NextResponse_json \<lparr>status = 400, message = Some ''Invalid theater ID'', data = None, error = Some ''ID format is incorrect''\<rparr>)"
    by (rule theater_PUT_malformed(2) [OF bad c])
  show "fst (theater_DELETE e i w) = Inr (NextResponse_json \<lparr>status = 400, message = Some ''Invalid theater ID'', data = None, error = Some ''ID format is incorrect''\<rparr>)"
    by (rule theater_DELETE_malformed(2) [OF bad c])
  show "fst (comments_GET e i w) = Inr (NextResponse_json \<lparr>status = 400, message = Some ''Invalid movie ID'', data = None, error = Some ''ID format is incorrect''\<rparr>)"
    by (rule comments_GET_malformed(2) [OF bad c])
next
  fix t
  assume c: "connect_error e = Some t"
  show "fst (movie_GET e i w) = Inr (NextResponse_json \<lparr>status = 500, message = Some ''Internal Server Error'', data = None,
              error = Some (err_message t)\<rparr>)"
    by (simp add: movie_GET_connect_fault [OF c] internal_error_run)
  show "fst (movie_PUT e i w) = Inr (NextResponse_json \<lparr>status = 500, message = Some ''Internal Server Error'', data = None,
              error = Some (err_message t)\<rparr>)"
    by (simp add: movie_PUT_connect_fault [OF c] internal_error_run)
  show "fst (movie_DELETE e i w) = Inr (NextResponse_json \<lparr>status = 500, message = Some ''Internal Server Error'', data = None,
              error = Some (err_message t)\<rparr>)"
    by (simp add: movie_DELETE_connect_fault [OF c] internal_error_run)
  show "fst (theater_GET e i w) = Inr (NextResponse_json \<lparr>status = 500, message = Some ''Internal Server Error'', data = None,
              error = Some (err_message t)\<rparr>)"
    by (simp add: theater_GET_connect_fault [OF c] internal_error_run)
  show "fst (theater_PUT e i w) = Inr (NextResponse_json \<lparr>status = 500, message = Some ''Internal Server Error'', data = None,
              error = Some (err_message t)\<rparr>)"
    by (simp add: theater_PUT_connect_fault [OF c] internal_error_run)
  show "fst (theater_DELETE e i w) = Inr (NextResponse_json \<lparr>status = 500, message = Some ''Internal Server Error'', data = None,
              error = Some (err_message t)\<rparr>)"
    by (simp add: theater_DELETE_connect_fault [OF c] internal_error_run)
  show "fst (comments_GET e i w) = Inr (NextResponse_json \<lparr>status = 500, message = Some ''Internal Server Error'', data = None,
              error = Some (err_message t)\<rparr>)"
    by (simp add: comments_GET_connect_fault [OF c] internal_error_run)
  show "fst (comment_GET e idMovie idComment w) = Inr (NextResponse_json \<lparr>status = 500, message = Some ''Internal Server Error'', data = None,
              error = Some (err_message t)\<rparr>)"
    by (simp add: comment_GET_connect_fault [OF c] internal_error_run)
next
  assume bad: "\<not> ObjectId_isValid idMovie \<or> \<not> ObjectId_isValid idComment"
  show "snd (comment_GET e idMovie idComment w) = w" by (rule comment_GET_malformed(1) [OF bad])
  show "snd (comment_PUT e rj idMovie idComment w) = w" by (rule comment_PUT_malformed(1) [OF bad])
  show "comment_DELETE e idMovie idComment w = (Inr (NextResponse_json \<lparr>status = 400, message = Some ''Invalid ID format'', data = None, error = None\<rparr>), w)"
    by (rule comment_DELETE_malformed [OF bad])
next
  assume bad: "\<not> ObjectId_isValid idMovie \<or> \<not> ObjectId_isValid idComment"
    and c: "connect_error e = None"
  show "fst (comment_GET e idMovie idComment w) = Inr (NextResponse_json \<lparr>status = 400, message = Some ''Invalid ID format'', data = None, error = None\<rparr>)"
    by (rule comment_GET_malformed(2) [OF bad c])
next
  fix parsed v
  assume bad: "\<not> ObjectId_isValid idMovie \<or> \<not> ObjectId_isValid idComment"
    and "rj = Inr parsed \<and> destructure_text parsed = Inr v"
  then show "fst (comment_PUT e rj idMovie idComment w) = Inr (NextResponse_json \<lparr>status = 400, message = Some ''Invalid ID format'', data = None, error = None\<rparr>)"
    using comment_PUT_malformed(2) [OF bad] by blast
next
  fix t
  assume "rj = Inl t"
  then show "fst (comment_PUT e rj idMovie idComment w) = Inr (NextResponse_json \<lparr>status = 500, message = Some ''Internal Server Error'', data = None,
              error = Some (err_message t)\<rparr>)"
    by (simp add: comment_PUT_json_throws internal_error_run)
next
  fix parsed t
  assume "rj = Inr parsed \<and> destructure_text parsed = Inl t"
  then show "fst (comment_PUT e rj idMovie idComment w) = Inr (NextResponse_json \<lparr>status = 500, message = Some ''Internal Server Error'', data = None,
              error = Some (err_message t)\<rparr>)"
    by (simp add: comment_PUT_destructure_throws internal_error_run)
qed

text \<open>C3, witness: a malformed id on \<open>GET /movies/{idMovie}\<close> and on \<open>PUT\<close> of a comment
  with a body that parses; the same id with the client promise rejected, and with a body
  that does not parse.\<close>

theorem malformed_id_short_circuit_witness:
  "\<not> ObjectId_isValid ''not-an-id'' \<and> connect_error ex_env = None \<and>
   destructure_text (JObject [(''text'', JString ''edited'')]) = Inr (JString ''edited'') \<and>
   movie_GET ex_env ''not-an-id'' ex_world = (Inr (NextResponse_json \<lparr>status = 400, message = Some ''Invalid movie ID'', data = None, error = Some ''ID format is incorrect''\<rparr>), ex_world) \<and>
   comment_PUT ex_env (Inr (JObject [(''text'', JString ''edited'')])) ex_movie_id ''not-an-id''
       ex_world = (Inr (NextResponse_json \<lparr>status = 400, message = Some ''Invalid ID format'', data = None, error = None\<rparr>), ex_world) \<and>
   connect_error offline_env = Some (Error ''getaddrinfo ENOTFOUND'') \<and>
   theater_PUT offline_env ''not-an-id'' ex_world =
     (Inr (NextResponse_json
        \<lparr>status = 500, message = Some ''Internal Server Error'', data = None,
         error = Some ''getaddrinfo ENOTFOUND''\<rparr>), ex_world) \<and>
   comment_PUT ex_env (Inl (Error ''Unexpected token'')) ex_movie_id ''not-an-id'' ex_world =
     (Inr (NextResponse_json
        \<lparr>status = 500, message = Some ''Internal Server Error'', data = None,
         error = Some ''Unexpected token''\<rparr>), ex_world)"
  using malformed_id_short_circuit [where i = "''not-an-id''" and e = ex_env and w = ex_world
      and idMovie = ex_movie_id and idComment = "''not-an-id''"
      and rj = "Inr (JObject [(''text'', JString ''edited'')])"]
    malformed_id_short_circuit [where i = "''not-an-id''" and e = offline_env and w = ex_world
      and idMovie = ex_movie_id and idComment = "''not-an-id''"
      and rj = "Inl (Error ''Unexpected token'')"]
    malformed_id_short_circuit [where i = "''not-an-id''" and e = ex_env and w = ex_world
      and idMovie = ex_movie_id and idComment = "''not-an-id''"
      and rj = "Inl (Error ''Unexpected token'')"]
    not_valid_not_an_id
  by (simp add: ex_env_def offline_env_def destructure_text_def prod_eq_iff)

subsection \<open>C4: the transport status\<close>

text \<open>
  C4: whatever the endpoint, the input and the outcome, the handler returns a response (it
  never throws) and the transport status of that response is 200; the \<open>status\<close> field of the
  envelope does not reach it.
\<close>

theorem transport_status_always_200: "transport_status (serve e rq w) = 200"
proof (cases "try_block e (req_verb rq) (req_route rq) (req_json rq)")
  case None
  from handler_no_try_block [OF this] show ?thesis
    by (auto simp add: serve_def returnE_def transport_status_def NextResponse_json_def)
next
  case (Some m)
  have "transport_status (try_catch m internal_error w) = 200"
    by (rule http_200_try) (rule http_200_all [OF Some])
  then show ?thesis by (simp add: serve_def handler_try_block [OF Some])
qed

text \<open>C4, witness: a \<open>DELETE\<close> of an absent movie has an envelope of status 404 and goes out
  with transport status 200.\<close>

theorem transport_status_always_200_witness:
  "map_option status (envelope_of (serve ex_env
      \<lparr>req_verb = DELETE, req_route = Movie absent_id, req_json = Inr JNull\<rparr> ex_world)) = Some 404 \<and>
   transport_status (serve ex_env
      \<lparr>req_verb = DELETE, req_route = Movie absent_id, req_json = Inr JNull\<rparr> ex_world) = 200"
  using transport_status_always_200 [where e = ex_env and w = ex_world
      and rq = "\<lparr>req_verb = DELETE, req_route = Movie absent_id, req_json = Inr JNull\<rparr>"]
    movie_DELETE_not_found [where e = ex_env and w = ex_world, OF _ _ new_ObjectId_absent_id]
  by (simp add: serve_def ex_defs matches_def envelope_of_def NextResponse_json_def)

subsection \<open>C5: the sentinel of comment creation\<close>

text \<open>
  C5: \<open>POST /movies/{idMovie}/comments/{idComment}\<close> with any \<open>idComment\<close> other than the
  literal \<open>null\<close> answers with a 400 envelope and leaves the database untouched, whatever
  the movie id; a 201 envelope is only ever returned, and a collection only ever changed,
  for \<open>idComment = null\<close> with a well-formed movie id; and with the sentinel, a well-formed movie id and a store that
  accepts the insert, one comment with the fixed fields is appended and the 201 envelope
  carries the inserted id.
\<close>

theorem comment_POST_sentinel:
  "(idComment \<noteq> ''null'' \<longrightarrow>
      comment_POST e idMovie idComment w = (Inr (NextResponse_json \<lparr>status = 400, message = Some ''POST must target /comments/null only'', data = None, error = None\<rparr>), w)) \<and>
   (map_option status (envelope_of (comment_POST e idMovie idComment w)) = Some 201 \<longrightarrow>
      idComment = ''null'' \<and> ObjectId_isValid idMovie) \<and>
   (colls (snd (comment_POST e idMovie idComment w)) \<noteq> colls w \<longrightarrow>
      idComment = ''null'' \<and> ObjectId_isValid idMovie) \<and>
   (connect_error e = None \<and> op_error e = None \<and> new_ObjectId idMovie = Inr mid \<and>
    JObjectId (created_pk e) \<notin> set (map doc_id (colls w ''comments'')) \<longrightarrow>
      comment_POST e idMovie ''null'' w =
        (Inr (NextResponse_json
           \<lparr>status = 201, message = Some ''Comment created successfully'',
            data = Some (JObject [(''insertedId'', JObjectId (created_pk e))]), error = None\<rparr>),
         \<lparr>colls = (colls w)(''comments'' := colls w ''comments'' @
             [[(''_id'', JObjectId (created_pk e)),
               (''name'', JString ''test''),
               (''email'', JString ''test''),
               (''text'', JString ''test''),
               (''movie_id'', JObjectId mid),
               (''date'', JDate (now e))]]),
          calls = calls w @ [InsertOne ''comments'']\<rparr>))"
proof (intro conjI impI)
  assume "idComment \<noteq> ''null''"
  then show "comment_POST e idMovie idComment w = (Inr (NextResponse_json \<lparr>status = 400, message = Some ''POST must target /comments/null only'', data = None, error = None\<rparr>), w)"
    by (rule comment_POST_not_sentinel)
next
  assume "map_option status (envelope_of (comment_POST e idMovie idComment w)) = Some 201"
  then have both: "idComment = ''null'' \<and> ObjectId_isValid idMovie"
    by (rule comment_POST_created_only)
  from both show "idComment = ''null''" by simp
  from both show "ObjectId_isValid idMovie" by simp
next
  assume changed: "colls (snd (comment_POST e idMovie idComment w)) \<noteq> colls w"
  show sentinel: "idComment = ''null''"
    using changed comment_POST_not_sentinel [of idComment e idMovie w]
    by (cases "idComment = ''null''") simp_all
  show "ObjectId_isValid idMovie"
    using changed sentinel comment_POST_malformed [of idMovie e w]
    by (cases "ObjectId_isValid idMovie") simp_all
next
  assume "connect_error e = None \<and> op_error e = None \<and> new_ObjectId idMovie = Inr mid \<and>
    JObjectId (created_pk e) \<notin> set (map doc_id (colls w ''comments''))"
  then show "comment_POST e idMovie ''null'' w =
        (Inr (NextResponse_json
           \<lparr>status = 201, message = Some ''Comment created successfully'',
            data = Some (JObject [(''insertedId'', JObjectId (created_pk e))]), error = None\<rparr>),
         \<lparr>colls = (colls w)(''comments'' := colls w ''comments'' @
             [[(''_id'', JObjectId (created_pk e)),
               (''name'', JString ''test''),
               (''email'', JString ''test''),
               (''text'', JString ''test''),
               (''movie_id'', JObjectId mid),
               (''date'', JDate (now e))]]),
          calls = calls w @ [InsertOne ''comments'']\<rparr>)"
    using comment_POST_creates [of e idMovie mid w] by blast
qed

text \<open>C5, witness: with a comment id in the path the call is refused although the movie
  exists; with the sentinel the comment is inserted.\<close>

theorem comment_POST_sentinel_witness:
  "ex_comment_id \<noteq> ''null'' \<and>
   comment_POST ex_env ex_movie_id ex_comment_id ex_world =
     (Inr (NextResponse_json \<lparr>status = 400, message = Some ''POST must target /comments/null only'', data = None, error = None\<rparr>), ex_world) \<and>
   connect_error ex_env = None \<and> op_error ex_env = None \<and>
   new_ObjectId ex_movie_id = Inr ex_movie_oid \<and>
   JObjectId (created_pk ex_env) \<notin> set (map doc_id (colls ex_world ''comments'')) \<and>
   map_option status (envelope_of (comment_POST ex_env ex_movie_id ''null'' ex_world)) = Some 201 \<and>
   ObjectId_isValid ex_movie_id \<and>
   length (colls (snd (comment_POST ex_env ex_movie_id ''null'' ex_world)) ''comments'') = 2"
  using comment_POST_sentinel [where e = ex_env and w = ex_world and idMovie = ex_movie_id
      and idComment = ex_comment_id and mid = ex_movie_oid]
    comment_POST_sentinel [where e = ex_env and w = ex_world and idMovie = ex_movie_id
      and idComment = "''null''" and mid = ex_movie_oid]
    new_ObjectId_ex_movie_id
  by (simp add: ex_defs ex_comment_id_def doc_id_def envelope_of_def NextResponse_json_def)

subsection \<open>C6: item-level creation\<close>

text \<open>
  C6: a \<open>POST\<close> on \<open>/movies/{idMovie}\<close> or \<open>/theaters/{idTheater}\<close>, whatever the id in the
  path and whatever the body, appends the one fixed placeholder document (with the
  identifier the store assigns) to its collection and answers with a 201 envelope carrying
  that identifier; this is when the store takes the insert (the client promise resolves,
  the call does not throw, the assigned identifier is new to the collection).
\<close>

theorem item_POST_inserts_placeholder:
  assumes "connect_error e = None" and "op_error e = None"
  shows
    "(JObjectId (created_pk e) \<notin> set (map doc_id (colls w ''movies'')) \<longrightarrow>
        serve e \<lparr>req_verb = POST, req_route = Movie anyId, req_json = anyBody\<rparr> w =
          (Inr (NextResponse_json
             \<lparr>status = 201, message = Some ''Movie successfully added'',
              data = Some (JObject [(''insertedId'', JObjectId (created_pk e))]), error = None\<rparr>),
           \<lparr>colls = (colls w)(''movies'' := colls w ''movies'' @
               [[(''_id'', JObjectId (created_pk e)),
                 (''title'', JString ''test''),
                 (''year'', JNumber 2025),
                 (''director'', JString ''Thomas''),
                 (''genre'', JArray [JString ''Sci-fi'']),
                 (''plot'', JString ''test test testt'')]]),
            calls = calls w @ [InsertOne ''movies'']\<rparr>)) \<and>
     (JObjectId (created_pk e) \<notin> set (map doc_id (colls w ''theaters'')) \<longrightarrow>
        serve e \<lparr>req_verb = POST, req_route = Theater anyId, req_json = anyBody\<rparr> w =
          (Inr (NextResponse_json
             \<lparr>status = 201, message = Some ''Theater successfully added'',
              data = Some (JObject [(''insertedId'', JObjectId (created_pk e))]), error = None\<rparr>),
           \<lparr>colls = (colls w)(''theaters'' := colls w ''theaters'' @
               [[(''_id'', JObjectId (created_pk e)), (''theaterId'', JString ''test'')]]),
            calls = calls w @ [InsertOne ''theaters'']\<rparr>))"
  using movie_POST_creates [OF assms, of w] theater_POST_creates [OF assms, of w]
  by (simp add: serve_def movie_POST_document_def theater_POST_document_def)

text \<open>C6, witness: a \<open>POST\<close> on a malformed movie id, with a body the handler never reads,
  adds a second movie.\<close>

theorem item_POST_inserts_placeholder_witness:
  "connect_error ex_env = None \<and> op_error ex_env = None \<and>
   JObjectId (created_pk ex_env) \<notin> set (map doc_id (colls ex_world ''movies'')) \<and>
   map_option status (envelope_of (serve ex_env
      \<lparr>req_verb = POST, req_route = Movie ''not-an-id'',
       req_json = Inr (JObject [(''title'', JString ''Alien'')])\<rparr> ex_world)) = Some 201 \<and>
   length (colls (snd (serve ex_env
      \<lparr>req_verb = POST, req_route = Movie ''not-an-id'',
       req_json = Inr (JObject [(''title'', JString ''Alien'')])\<rparr> ex_world)) ''movies'') = 2"
  using item_POST_inserts_placeholder [where e = ex_env and w = ex_world
      and anyId = "''not-an-id''" and anyBody = "Inr (JObject [(''title'', JString ''Alien'')])"]
  by (simp add: ex_defs doc_id_def envelope_of_def NextResponse_json_def)

subsection \<open>C7: well-formed identifiers that match nothing\<close>

text \<open>
  C7: for an id that passes the format check and matches no document, reading, updating and
  deleting each answer with the not-found envelope (status 404): on movies, on theaters,
  and on a movie's comments, where the match is on the comment id together with the movie
  id.  The store is taken to answer (the client promise resolves, the call does not throw)
  and, for the comment update, the body to parse.
\<close>

theorem valid_absent_id_not_found:
  assumes "connect_error e = None" and "op_error e = None"
    and "new_ObjectId i = Inr oid"
  shows
    "(find (matches [(''_id'', JObjectId oid)]) (colls w ''movies'') = None \<longrightarrow>
        fst (movie_GET e i w) = Inr (NextResponse_json
           \<lparr>status = 404, message = Some ''Movie not found'', data = None, error = Some ''No movie found with the given ID''\<rparr>) \<and>
        fst (movie_PUT e i w) = Inr (NextResponse_json
           \<lparr>status = 404, message = Some ''Movie not found'', data = None, error = Some ''No movie to update with the given ID''\<rparr>) \<and>
        fst (movie_DELETE e i w) = Inr (NextResponse_json
           \<lparr>status = 404, message = Some ''Movie not found'', data = None, error = Some ''No movie deleted''\<rparr>)) \<and>
     (find (matches [(''_id'', JObjectId oid)]) (colls w ''theaters'') = None \<longrightarrow>
        fst (theater_GET e i w) = Inr (NextResponse_json
           \<lparr>status = 404, message = Some ''Theater not found'', data = None, error = Some ''No theater found with the given ID''\<rparr>) \<and>
        fst (theater_PUT e i w) = Inr (NextResponse_json
           \<lparr>status = 404, message = Some ''Theater not found'', data = None, error = Some ''No theater to update with the given ID''\<rparr>) \<and>
        fst (theater_DELETE e i w) = Inr (NextResponse_json
           \<lparr>status = 404, message = Some ''Theater not found'', data = None, error = Some ''No theater deleted''\<rparr>)) \<and>
     (new_ObjectId idMovie = Inr mid \<and>
      find (matches [(''_id'', JObjectId oid), (''movie_id'', JObjectId mid)])
        (colls w ''comments'') = None \<longrightarrow>
        fst (comment_GET e idMovie i w) = Inr (NextResponse_json
           \<lparr>status = 404, message = Some ''Comment not found'', data = None, error = None\<rparr>) \<and>
        (destructure_text parsed = Inr newText \<longrightarrow>
           fst (comment_PUT e (Inr parsed) idMovie i w) = Inr (NextResponse_json
           \<lparr>status = 404, message = Some ''Comment not found'', data = None, error = None\<rparr>)) \<and>
        fst (comment_DELETE e idMovie i w) = Inr (NextResponse_json
           \<lparr>status = 404, message = Some ''Comment not found'', data = None, error = None\<rparr>))"
proof (intro conjI impI)
  assume none: "find (matches [(''_id'', JObjectId oid)]) (colls w ''movies'') = None"
  show "fst (movie_GET e i w) = Inr (NextResponse_json
           \<lparr>status = 404, message = Some ''Movie not found'', data = None, error = Some ''No movie found with the given ID''\<rparr>)"
    by (simp add: movie_GET_not_found [OF assms none])
  show "fst (movie_PUT e i w) = Inr (NextResponse_json
           \<lparr>status = 404, message = Some ''Movie not found'', data = None, error = Some ''No movie to update with the given ID''\<rparr>)"
    by (simp add: movie_PUT_not_found [OF assms none])
  show "fst (movie_DELETE e i w) = Inr (NextResponse_json
           \<lparr>status = 404, message = Some ''Movie not found'', data = None, error = Some ''No movie deleted''\<rparr>)"
    by (simp add: movie_DELETE_not_found [OF assms none])
next
  assume none: "find (matches [(''_id'', JObjectId oid)]) (colls w ''theaters'') = None"
  show "fst (theater_GET e i w) = Inr (NextResponse_json
           \<lparr>status = 404, message = Some ''Theater not found'', data = None, error = Some ''No theater found with the given ID''\<rparr>)"
    by (simp add: theater_GET_not_found [OF assms none])
  show "fst (theater_PUT e i w) = Inr (NextResponse_json
           \<lparr>status = 404, message = Some ''Theater not found'', data = None, error = Some ''No theater to update with the given ID''\<rparr>)"
    by (simp add: theater_PUT_not_found [OF assms none])
  show "fst (theater_DELETE e i w) = Inr (NextResponse_json
           \<lparr>status = 404, message = Some ''Theater not found'', data = None, error = Some ''No theater deleted''\<rparr>)"
    by (simp add: theater_DELETE_not_found [OF assms none])
next
  assume h: "new_ObjectId idMovie = Inr mid \<and>
      find (matches [(''_id'', JObjectId oid), (''movie_id'', JObjectId mid)])
        (colls w ''comments'') = None"
  then have m: "new_ObjectId idMovie = Inr mid"
    and none: "find (matches [(''_id'', JObjectId oid), (''movie_id'', JObjectId mid)])
        (colls w ''comments'') = None"
    by simp_all
  show "fst (comment_GET e idMovie i w) = Inr (NextResponse_json
           \<lparr>status = 404, message = Some ''Comment not found'', data = None, error = None\<rparr>)"
    by (simp add: comment_GET_not_found [OF assms(1,2) m assms(3) none])
  show "fst (comment_DELETE e idMovie i w) = Inr (NextResponse_json
           \<lparr>status = 404, message = Some ''Comment not found'', data = None, error = None\<rparr>)"
    by (simp add: comment_DELETE_not_found [OF assms(1,2) m assms(3) none])
  assume d: "destructure_text parsed = Inr newText"
  show "fst (comment_PUT e (Inr parsed) idMovie i w) = Inr (NextResponse_json
           \<lparr>status = 404, message = Some ''Comment not found'', data = None, error = None\<rparr>)"
    by (simp add: comment_PUT_not_found [OF assms(1,2) m assms(3) d none])
qed

text \<open>C7, witness: an id of 24 hexadecimal digits that no movie, theater or comment has.\<close>

theorem valid_absent_id_not_found_witness:
  "connect_error ex_env = None \<and> op_error ex_env = None \<and>
   new_ObjectId absent_id = Inr absent_oid \<and> new_ObjectId ex_movie_id = Inr ex_movie_oid \<and>
   find (matches [(''_id'', JObjectId absent_oid)]) (colls ex_world ''movies'') = None \<and>
   find (matches [(''_id'', JObjectId absent_oid)]) (colls ex_world ''theaters'') = None \<and>
   find (matches [(''_id'', JObjectId absent_oid), (''movie_id'', JObjectId ex_movie_oid)])
     (colls ex_world ''comments'') = None \<and>
   destructure_text (JObject [(''text'', JString ''edited'')]) = Inr (JString ''edited'') \<and>
   map_option status (envelope_of (movie_GET ex_env absent_id ex_world)) = Some 404 \<and>
   map_option status (envelope_of (theater_PUT ex_env absent_id ex_world)) = Some 404 \<and>
   map_option status (envelope_of (comment_PUT ex_env
     (Inr (JObject [(''text'', JString ''edited'')])) ex_movie_id absent_id ex_world)) = Some 404 \<and>
   map_option status (envelope_of (comment_DELETE ex_env ex_movie_id absent_id ex_world)) = Some 404"
  using valid_absent_id_not_found [where e = ex_env and w = ex_world and i = absent_id
      and oid = absent_oid and idMovie = ex_movie_id and mid = ex_movie_oid
      and parsed = "JObject [(''text'', JString ''edited'')]" and newText = "JString ''edited''"]
    new_ObjectId_absent_id new_ObjectId_ex_movie_id
  by (simp add: ex_defs matches_def envelope_of_def NextResponse_json_def destructure_text_def)

subsection \<open>C8: deleting twice\<close>

text \<open>
  C8: in a collection whose documents have distinct identifiers (the store's own
  guarantee), with a well-formed id that a document has and a store that answers both
  times, the first \<open>DELETE\<close> returns a status 200 envelope and removes that document, after
  which no document has the id; the second \<open>DELETE\<close> of the same id returns a status 404
  envelope and leaves every collection as it was.  For theaters, movies, and a movie's
  comments.
\<close>

theorem delete_twice:
  assumes "connect_error e1 = None" and "op_error e1 = None"
    and "connect_error e2 = None" and "op_error e2 = None"
    and "new_ObjectId i = Inr oid"
  shows
    "(distinct (map doc_id (colls w ''theaters'')) \<and>
      find (matches [(''_id'', JObjectId oid)]) (colls w ''theaters'') = Some d \<longrightarrow>
        (let out1 = theater_DELETE e1 i w; out2 = theater_DELETE e2 i (snd out1)
         in fst out1 = Inr (NextResponse_json
           \<lparr>status = 200, message = Some ''Theater successfully deleted'', data = None, error = None\<rparr>) \<and>
            colls (snd out1) = (colls w)(''theaters'' := remove1 d (colls w ''theaters'')) \<and>
            find (matches [(''_id'', JObjectId oid)]) (colls (snd out1) ''theaters'') = None \<and>
            fst out2 = Inr (NextResponse_json
           \<lparr>status = 404, message = Some ''Theater not found'', data = None, error = Some ''No theater deleted''\<rparr>) \<and>
            colls (snd out2) = colls (snd out1))) \<and>
     (distinct (map doc_id (colls w ''movies'')) \<and>
      find (matches [(''_id'', JObjectId oid)]) (colls w ''movies'') = Some d \<longrightarrow>
        (let out1 = movie_DELETE e1 i w; out2 = movie_DELETE e2 i (snd out1)
         in fst out1 = Inr (NextResponse_json
           \<lparr>status = 200, message = Some ''Movie successfully deleted'', data = None, error = None\<rparr>) \<and>
            colls (snd out1) = (colls w)(''movies'' := remove1 d (colls w ''movies'')) \<and>
            find (matches [(''_id'', JObjectId oid)]) (colls (snd out1) ''movies'') = None \<and>
            fst out2 = Inr (NextResponse_json
           \<lparr>status = 404, message = Some ''Movie not found'', data = None, error = Some ''No movie deleted''\<rparr>) \<and>
            colls (snd out2) = colls (snd out1))) \<and>
     (distinct (map doc_id (colls w ''comments'')) \<and> new_ObjectId idMovie = Inr mid \<and>
      find (matches [(''_id'', JObjectId oid), (''movie_id'', JObjectId mid)])
        (colls w ''comments'') = Some d \<longrightarrow>
        (let out1 = comment_DELETE e1 idMovie i w; out2 = comment_DELETE e2 idMovie i (snd out1)
         in fst out1 = Inr (NextResponse_json
           \<lparr>status = 200, message = Some ''Comment deleted successfully'', data = None, error = None\<rparr>) \<and>
            colls (snd out1) = (colls w)(''comments'' := remove1 d (colls w ''comments'')) \<and>
            find (matches [(''_id'', JObjectId oid), (''movie_id'', JObjectId mid)])
              (colls (snd out1) ''comments'') = None \<and>
            fst out2 = Inr (NextResponse_json
           \<lparr>status = 404, message = Some ''Comment not found'', data = None, error = None\<rparr>) \<and>
            colls (snd out2) = colls (snd out1)))"
proof (intro conjI impI)
  assume "distinct (map doc_id (colls w ''theaters'')) \<and>
      find (matches [(''_id'', JObjectId oid)]) (colls w ''theaters'') = Some d"
  then have uniq: "distinct (map doc_id (colls w ''theaters''))"
    and found: "find (matches [(''_id'', JObjectId oid)]) (colls w ''theaters'') = Some d"
    by simp_all
  define w1 where "w1 = snd (theater_DELETE e1 i w)"
  have first: "theater_DELETE e1 i w = (Inr (NextResponse_json
           \<lparr>status = 200, message = Some ''Theater successfully deleted'', data = None, error = None\<rparr>), w1)"
    and c1: "colls w1 = (colls w)(''theaters'' := remove1 d (colls w ''theaters''))"
    by (simp_all add: w1_def theater_DELETE_found [OF assms(1,2,5) found])
  have gone: "find (matches [(''_id'', JObjectId oid)]) (colls w1 ''theaters'') = None"
    using find_remove1_unique [OF uniq found] by (simp add: c1)
  have second: "theater_DELETE e2 i w1 = (Inr (NextResponse_json
           \<lparr>status = 404, message = Some ''Theater not found'', data = None, error = Some ''No theater deleted''\<rparr>), logged (DeleteOne ''theaters'') w1)"
    by (rule theater_DELETE_not_found [OF assms(3,4,5) gone])
  show "let out1 = theater_DELETE e1 i w; out2 = theater_DELETE e2 i (snd out1)
         in fst out1 = Inr (NextResponse_json
           \<lparr>status = 200, message = Some ''Theater successfully deleted'', data = None, error = None\<rparr>) \<and>
            colls (snd out1) = (colls w)(''theaters'' := remove1 d (colls w ''theaters'')) \<and>
            find (matches [(''_id'', JObjectId oid)]) (colls (snd out1) ''theaters'') = None \<and>
            fst out2 = Inr (NextResponse_json
           \<lparr>status = 404, message = Some ''Theater not found'', data = None, error = Some ''No theater deleted''\<rparr>) \<and>
            colls (snd out2) = colls (snd out1)"
    using c1 gone by (simp add: first second)
next
  assume "distinct (map doc_id (colls w ''movies'')) \<and>
      find (matches [(''_id'', JObjectId oid)]) (colls w ''movies'') = Some d"
  then have uniq: "distinct (map doc_id (colls w ''movies''))"
    and found: "find (matches [(''_id'', JObjectId oid)]) (colls w ''movies'') = Some d"
    by simp_all
  define w1 where "w1 = snd (movie_DELETE e1 i w)"
  have first: "movie_DELETE e1 i w = (Inr (NextResponse_json
           \<lparr>status = 200, message = Some ''Movie successfully deleted'', data = None, error = None\<rparr>), w1)"
    and c1: "colls w1 = (colls w)(''movies'' := remove1 d (colls w ''movies''))"
    by (simp_all add: w1_def movie_DELETE_found [OF assms(1,2,5) found])
  have gone: "find (matches [(''_id'', JObjectId oid)]) (colls w1 ''movies'') = None"
    using find_remove1_unique [OF uniq found] by (simp add: c1)
  have second: "movie_DELETE e2 i w1 = (Inr (NextResponse_json
           \<lparr>status = 404, message = Some ''Movie not found'', data = None, error = Some ''No movie deleted''\<rparr>), logged (DeleteOne ''movies'') w1)"
    by (rule movie_DELETE_not_found [OF assms(3,4,5) gone])
  show "let out1 = movie_DELETE e1 i w; out2 = movie_DELETE e2 i (snd out1)
         in fst out1 = Inr (NextResponse_json
           \<lparr>status = 200, message = Some ''Movie successfully deleted'', data = None, error = None\<rparr>) \<and>
            colls (snd out1) = (colls w)(''movies'' := remove1 d (colls w ''movies'')) \<and>
            find (matches [(''_id'', JObjectId oid)]) (colls (snd out1) ''movies'') = None \<and>
            fst out2 = Inr (NextResponse_json
           \<lparr>status = 404, message = Some ''Movie not found'', data = None, error = Some ''No movie deleted''\<rparr>) \<and>
            colls (snd out2) = colls (snd out1)"
    using c1 gone by (simp add: first second)
next
  assume "distinct (map doc_id (colls w ''comments'')) \<and> new_ObjectId idMovie = Inr mid \<and>
      find (matches [(''_id'', JObjectId oid), (''movie_id'', JObjectId mid)])
        (colls w ''comments'') = Some d"
  then have uniq: "distinct (map doc_id (colls w ''comments''))"
    and m: "new_ObjectId idMovie = Inr mid"
    and found: "find (matches [(''_id'', JObjectId oid), (''movie_id'', JObjectId mid)])
        (colls w ''comments'') = Some d"
    by simp_all
  define w1 where "w1 = snd (comment_DELETE e1 idMovie i w)"
  have first: "comment_DELETE e1 idMovie i w = (Inr (NextResponse_json
           \<lparr>status = 200, message = Some ''Comment deleted successfully'', data = None, error = None\<rparr>), w1)"
    and c1: "colls w1 = (colls w)(''comments'' := remove1 d (colls w ''comments''))"
    by (simp_all add: w1_def comment_DELETE_found [OF assms(1,2) m assms(5) found])
  have gone: "find (matches [(''_id'', JObjectId oid), (''movie_id'', JObjectId mid)])
      (colls w1 ''comments'') = None"
    using find_remove1_unique [OF uniq found] by (simp add: c1)
  have second: "comment_DELETE e2 idMovie i w1 = (Inr (NextResponse_json
           \<lparr>status = 404, message = Some ''Comment not found'', data = None, error = None\<rparr>), logged (DeleteOne ''comments'') w1)"
    by (rule comment_DELETE_not_found [OF assms(3,4) m assms(5) gone])
  show "let out1 = comment_DELETE e1 idMovie i w; out2 = comment_DELETE e2 idMovie i (snd out1)
         in fst out1 = Inr (NextResponse_json
           \<lparr>status = 200, message = Some ''Comment deleted successfully'', data = None, error = None\<rparr>) \<and>
            colls (snd out1) = (colls w)(''comments'' := remove1 d (colls w ''comments'')) \<and>
            find (matches [(''_id'', JObjectId oid), (''movie_id'', JObjectId mid)])
              (colls (snd out1) ''comments'') = None \<and>
            fst out2 = Inr (NextResponse_json
           \<lparr>status = 404, message = Some ''Comment not found'', data = None, error = None\<rparr>) \<and>
            colls (snd out2) = colls (snd out1)"
    using c1 gone by (simp add: first second)
qed

text \<open>C8, witness: the theater, the movie and the comment of the example database are each
  deleted by a first call and reported missing by a second.\<close>

theorem delete_twice_witness:
  "connect_error ex_env = None \<and> op_error ex_env = None \<and>
   new_ObjectId ex_theater_id = Inr ex_theater_oid \<and>
   distinct (map doc_id (colls ex_world ''theaters'')) \<and>
   find (matches [(''_id'', JObjectId ex_theater_oid)]) (colls ex_world ''theaters'') = Some ex_theater \<and>
   map_option status (envelope_of (theater_DELETE ex_env ex_theater_id ex_world)) = Some 200 \<and>
   colls (snd (theater_DELETE ex_env ex_theater_id ex_world)) ''theaters'' = [] \<and>
   map_option status (envelope_of (theater_DELETE ex_env ex_theater_id
     (snd (theater_DELETE ex_env ex_theater_id ex_world)))) = Some 404 \<and>
   new_ObjectId ex_movie_id = Inr ex_movie_oid \<and>
   distinct (map doc_id (colls ex_world ''movies'')) \<and>
   find (matches [(''_id'', JObjectId ex_movie_oid)]) (colls ex_world ''movies'') = Some ex_movie \<and>
   map_option status (envelope_of (movie_DELETE ex_env ex_movie_id ex_world)) = Some 200 \<and>
   map_option status (envelope_of (movie_DELETE ex_env ex_movie_id
     (snd (movie_DELETE ex_env ex_movie_id ex_world)))) = Some 404 \<and>
   new_ObjectId ex_comment_id = Inr ex_comment_oid \<and>
   distinct (map doc_id (colls ex_world ''comments'')) \<and>
   find (matches [(''_id'', JObjectId ex_comment_oid), (''movie_id'', JObjectId ex_movie_oid)])
     (colls ex_world ''comments'') = Some ex_comment \<and>
   map_option status (envelope_of (comment_DELETE ex_env ex_movie_id ex_comment_id ex_world)) = Some 200 \<and>
   map_option status (envelope_of (comment_DELETE ex_env ex_movie_id ex_comment_id
     (snd (comment_DELETE ex_env ex_movie_id ex_comment_id ex_world)))) = Some 404"
  using delete_twice [where ?e1.0 = ex_env and ?e2.0 = ex_env and w = ex_world
      and i = ex_theater_id and oid = ex_theater_oid and d = ex_theater]
    delete_twice [where ?e1.0 = ex_env and ?e2.0 = ex_env and w = ex_world
      and i = ex_movie_id and oid = ex_movie_oid and d = ex_movie]
    delete_twice [where ?e1.0 = ex_env and ?e2.0 = ex_env and w = ex_world
      and i = ex_comment_id and oid = ex_comment_oid and d = ex_comment
      and idMovie = ex_movie_id and mid = ex_movie_oid]
    new_ObjectId_ex_theater_id new_ObjectId_ex_movie_id new_ObjectId_ex_comment_id
  by (simp add: ex_defs matches_def doc_id_def envelope_of_def NextResponse_json_def Let_def)

subsection \<open>C9: exceptions\<close>

text \<open>
  C9: every handler returns a response, it never throws, and whatever throws inside a
  handler is answered with the status 500 envelope whose \<open>error\<close> field is the thrown
  error's message (\<open>internal_error t\<close>, the shared \<open>catch\<close> block).  Step by step: the \<open>try\<close>
  block of the handler a request reaches throws; a driver call has been issued and throws;
  the client promise is rejected, in every handler that awaits it (at once in the handlers
  that await it first, after their checks in comment \<open>POST\<close>, \<open>PUT\<close> and \<open>DELETE\<close>);
  \<open>request.json()\<close> throws, or the parsed body cannot be destructured, in comment \<open>PUT\<close>;
  the driver call of each handler throws, and then nothing is written; the store refuses
  an insert because the identifier is already in the collection.
\<close>

theorem exceptions_become_500:
  "(\<exists>r. fst (serve e rq w) = Inr r) \<and>
   (\<forall>blk t. try_block e (req_verb rq) (req_route rq) (req_json rq) = Some blk \<and>
       fst (blk w) = Inl t \<longrightarrow>
       fst (serve e rq w) = Inr (NextResponse_json
           \<lparr>status = 500, message = Some ''Internal Server Error'', data = None,
            error = Some (err_message t)\<rparr>)) \<and>
   (\<forall>t. op_error e = Some t \<and> calls (snd (serve e rq w)) \<noteq> calls w \<longrightarrow>
       fst (serve e rq w) = Inr (NextResponse_json
           \<lparr>status = 500, message = Some ''Internal Server Error'', data = None,
            error = Some (err_message t)\<rparr>)) \<and>
   (\<forall>w'. internal_error t w' =
     (Inr (NextResponse_json
        \<lparr>status = 500, message = Some ''Internal Server Error'', data = None,
            error = Some (err_message t)\<rparr>), w')) \<and>
   (connect_error e = Some t \<longrightarrow>
      theaters_GET e w = internal_error t w \<and>
      theater_GET e i w = internal_error t w \<and>
      theater_POST e w = internal_error t w \<and>
      theater_PUT e i w = internal_error t w \<and>
      theater_DELETE e i w = internal_error t w \<and>
      movie_GET e i w = internal_error t w \<and>
      movie_POST e w = internal_error t w \<and>
      movie_PUT e i w = internal_error t w \<and>
      movie_DELETE e i w = internal_error t w \<and>
      comments_GET e i w = internal_error t w \<and>
      comment_GET e idMovie idComment w = internal_error t w \<and>
      (ObjectId_isValid idMovie \<longrightarrow> comment_POST e idMovie ''null'' w = internal_error t w) \<and>
      (ObjectId_isValid idMovie \<and> ObjectId_isValid idComment \<longrightarrow>
         comment_DELETE e idMovie idComment w = internal_error t w) \<and>
      (ObjectId_isValid idMovie \<and> ObjectId_isValid idComment \<and>
       destructure_text parsed = Inr newText \<longrightarrow>
         comment_PUT e (Inr parsed) idMovie idComment w = internal_error t w)) \<and>
   comment_PUT e (Inl t) idMovie idComment w = internal_error t w \<and>
   (destructure_text parsed = Inl t \<longrightarrow>
      comment_PUT e (Inr parsed) idMovie idComment w = internal_error t w) \<and>
   (connect_error e = None \<and> op_error e = Some t \<longrightarrow>
      theaters_GET e w = internal_error t (logged (Find ''theaters'') w) \<and>
      theater_POST e w = internal_error t (logged (InsertOne ''theaters'') w) \<and>
      movie_POST e w = internal_error t (logged (InsertOne ''movies'') w) \<and>
      (ObjectId_isValid i \<longrightarrow>
         theater_GET e i w = internal_error t (logged (FindOne ''theaters'') w) \<and>
         theater_PUT e i w = internal_error t (logged (UpdateOne ''theaters'') w) \<and>
         theater_DELETE e i w = internal_error t (logged (DeleteOne ''theaters'') w) \<and>
         movie_GET e i w = internal_error t (logged (FindOne ''movies'') w) \<and>
         movie_PUT e i w = internal_error t (logged (UpdateOne ''movies'') w) \<and>
         movie_DELETE e i w = internal_error t (logged (DeleteOne ''movies'') w) \<and>
         comments_GET e i w = internal_error t (logged (Find ''comments'') w)) \<and>
      (ObjectId_isValid idMovie \<longrightarrow>
         comment_POST e idMovie ''null'' w = internal_error t (logged (InsertOne ''comments'') w)) \<and>
      (ObjectId_isValid idMovie \<and> ObjectId_isValid idComment \<longrightarrow>
         comment_GET e idMovie idComment w = internal_error t (logged (FindOne ''comments'') w) \<and>
         comment_DELETE e idMovie idComment w = internal_error t (logged (DeleteOne ''comments'') w) \<and>
         (destructure_text parsed = Inr newText \<longrightarrow>
            comment_PUT e (Inr parsed) idMovie idComment w =
              internal_error t (logged (UpdateOne ''comments'') w)))) \<and>
   (connect_error e = None \<and> op_error e = None \<longrightarrow>
      (JObjectId (created_pk e) \<in> set (map doc_id (colls w ''movies'')) \<longrightarrow>
         movie_POST e w =
           internal_error (Error ''E11000 duplicate key error collection'')
             (logged (InsertOne ''movies'') w)) \<and>
      (JObjectId (created_pk e) \<in> set (map doc_id (colls w ''theaters'')) \<longrightarrow>
         theater_POST e w =
           internal_error (Error ''E11000 duplicate key error collection'')
             (logged (InsertOne ''theaters'') w)) \<and>
      (ObjectId_isValid idMovie \<and>
       JObjectId (created_pk e) \<in> set (map doc_id (colls w ''comments'')) \<longrightarrow>
         comment_POST e idMovie ''null'' w =
           internal_error (Error ''E11000 duplicate key error collection'')
             (logged (InsertOne ''comments'') w)))"
proof -
  have returns: "(\<exists>r. fst (serve e rq w) = Inr r)"
    by (simp add: serve_def handler_returns)
  have block: "(\<forall>blk t. try_block e (req_verb rq) (req_route rq) (req_json rq) = Some blk \<and>
       fst (blk w) = Inl t \<longrightarrow>
       fst (serve e rq w) = Inr (NextResponse_json
           \<lparr>status = 500, message = Some ''Internal Server Error'', data = None,
            error = Some (err_message t)\<rparr>))"
  proof (intro allI impI)
    fix blk t
    assume "try_block e (req_verb rq) (req_route rq) (req_json rq) = Some blk \<and>
       fst (blk w) = Inl t"
    then have blk: "try_block e (req_verb rq) (req_route rq) (req_json rq) = Some blk"
      and thrown: "fst (blk w) = Inl t"
      by simp_all
    from thrown show "fst (serve e rq w) = Inr (NextResponse_json
           \<lparr>status = 500, message = Some ''Internal Server Error'', data = None,
            error = Some (err_message t)\<rparr>)"
      by (cases "blk w") (simp add: serve_def handler_try_block [OF blk] try_catch_internal_error)
  qed
  have issued: "(\<forall>t. op_error e = Some t \<and> calls (snd (serve e rq w)) \<noteq> calls w \<longrightarrow>
       fst (serve e rq w) = Inr (NextResponse_json
           \<lparr>status = 500, message = Some ''Internal Server Error'', data = None,
            error = Some (err_message t)\<rparr>))"
  proof (intro allI impI)
    fix t
    assume "op_error e = Some t \<and> calls (snd (serve e rq w)) \<noteq> calls w"
    then show "fst (serve e rq w) = Inr (NextResponse_json
           \<lparr>status = 500, message = Some ''Internal Server Error'', data = None,
            error = Some (err_message t)\<rparr>)"
      using store_fault_surfaces [of e t "req_verb rq" "req_route rq" "req_json rq" w]
      by (simp add: serve_def)
  qed
  have catch: "(\<forall>w'. internal_error t w' =
     (Inr (NextResponse_json
        \<lparr>status = 500, message = Some ''Internal Server Error'', data = None,
            error = Some (err_message t)\<rparr>), w'))"
    by (simp add: internal_error_run)
  have client: "(connect_error e = Some t \<longrightarrow>
      theaters_GET e w = internal_error t w \<and>
      theater_GET e i w = internal_error t w \<and>
      theater_POST e w = internal_error t w \<and>
      theater_PUT e i w = internal_error t w \<and>
      theater_DELETE e i w = internal_error t w \<and>
      movie_GET e i w = internal_error t w \<and>
      movie_POST e w = internal_error t w \<and>
      movie_PUT e i w = internal_error t w \<and>
      movie_DELETE e i w = internal_error t w \<and>
      comments_GET e i w = internal_error t w \<and>
      comment_GET e idMovie idComment w = internal_error t w \<and>
      (ObjectId_isValid idMovie \<longrightarrow> comment_POST e idMovie ''null'' w = internal_error t w) \<and>
      (ObjectId_isValid idMovie \<and> ObjectId_isValid idComment \<longrightarrow>
         comment_DELETE e idMovie idComment w = internal_error t w) \<and>
      (ObjectId_isValid idMovie \<and> ObjectId_isValid idComment \<and>
       destructure_text parsed = Inr newText \<longrightarrow>
         comment_PUT e (Inr parsed) idMovie idComment w = internal_error t w))"
    by (intro conjI impI)
       (simp_all add: theaters_GET_connect_fault theater_GET_connect_fault theater_POST_connect_fault theater_PUT_connect_fault theater_DELETE_connect_fault movie_GET_connect_fault movie_POST_connect_fault movie_PUT_connect_fault movie_DELETE_connect_fault comments_GET_connect_fault comment_GET_connect_fault comment_POST_connect_fault comment_DELETE_connect_fault comment_PUT_connect_fault)
  have json: "comment_PUT e (Inl t) idMovie idComment w = internal_error t w"
    by (rule comment_PUT_json_throws)
  have destructure: "(destructure_text parsed = Inl t \<longrightarrow>
      comment_PUT e (Inr parsed) idMovie idComment w = internal_error t w)"
    by (simp add: comment_PUT_destructure_throws)
  have driver: "(connect_error e = None \<and> op_error e = Some t \<longrightarrow>
      theaters_GET e w = internal_error t (logged (Find ''theaters'') w) \<and>
      theater_POST e w = internal_error t (logged (InsertOne ''theaters'') w) \<and>
      movie_POST e w = internal_error t (logged (InsertOne ''movies'') w) \<and>
      (ObjectId_isValid i \<longrightarrow>
         theater_GET e i w = internal_error t (logged (FindOne ''theaters'') w) \<and>
         theater_PUT e i w = internal_error t (logged (UpdateOne ''theaters'') w) \<and>
         theater_DELETE e i w = internal_error t (logged (DeleteOne ''theaters'') w) \<and>
         movie_GET e i w = internal_error t (logged (FindOne ''movies'') w) \<and>
         movie_PUT e i w = internal_error t (logged (UpdateOne ''movies'') w) \<and>
         movie_DELETE e i w = internal_error t (logged (DeleteOne ''movies'') w) \<and>
         comments_GET e i w = internal_error t (logged (Find ''comments'') w)) \<and>
      (ObjectId_isValid idMovie \<longrightarrow>
         comment_POST e idMovie ''null'' w = internal_error t (logged (InsertOne ''comments'') w)) \<and>
      (ObjectId_isValid idMovie \<and> ObjectId_isValid idComment \<longrightarrow>
         comment_GET e idMovie idComment w = internal_error t (logged (FindOne ''comments'') w) \<and>
         comment_DELETE e idMovie idComment w = internal_error t (logged (DeleteOne ''comments'') w) \<and>
         (destructure_text parsed = Inr newText \<longrightarrow>
            comment_PUT e (Inr parsed) idMovie idComment w =
              internal_error t (logged (UpdateOne ''comments'') w))))"
    by (intro conjI impI)
       (simp_all add: theaters_GET_op_fault theater_GET_op_fault theater_POST_op_fault theater_PUT_op_fault theater_DELETE_op_fault movie_GET_op_fault movie_POST_op_fault movie_PUT_op_fault movie_DELETE_op_fault comments_GET_op_fault comment_GET_op_fault comment_POST_op_fault comment_DELETE_op_fault comment_PUT_op_fault)
  have duplicate: "(connect_error e = None \<and> op_error e = None \<longrightarrow>
      (JObjectId (created_pk e) \<in> set (map doc_id (colls w ''movies'')) \<longrightarrow>
         movie_POST e w =
           internal_error (Error ''E11000 duplicate key error collection'')
             (logged (InsertOne ''movies'') w)) \<and>
      (JObjectId (created_pk e) \<in> set (map doc_id (colls w ''theaters'')) \<longrightarrow>
         theater_POST e w =
           internal_error (Error ''E11000 duplicate key error collection'')
             (logged (InsertOne ''theaters'') w)) \<and>
      (ObjectId_isValid idMovie \<and>
       JObjectId (created_pk e) \<in> set (map doc_id (colls w ''comments'')) \<longrightarrow>
         comment_POST e idMovie ''null'' w =
           internal_error (Error ''E11000 duplicate key error collection'')
             (logged (InsertOne ''comments'') w)))"
    by (intro conjI impI)
       (simp_all add: movie_POST_duplicate theater_POST_duplicate comment_POST_duplicate)
  show ?thesis
    by (rule conjI [OF returns conjI [OF block conjI [OF issued conjI [OF catch
          conjI [OF client conjI [OF json conjI [OF destructure conjI [OF driver duplicate]]]]]]]])
qed

text \<open>C9, witness: the lookup of \<open>GET /movies/{idMovie}\<close> throws, and the message of the
  error is what the 500 envelope carries; so it is for a rejected client promise on
  \<open>GET /theaters\<close>, for a body that does not parse or is \<open>null\<close> on \<open>PUT\<close> of a comment,
  and for an insert the store refuses.\<close>

theorem exceptions_become_500_witness:
  "op_error failing_env = Some (Error ''connection closed'') \<and>
   connect_error failing_env = None \<and>
   try_block failing_env GET (Movie ex_movie_id) (Inr JNull) = Some (movie_GET_try failing_env ex_movie_id) \<and>
   fst (movie_GET_try failing_env ex_movie_id ex_world) = Inl (Error ''connection closed'') \<and>
   calls (snd (serve failing_env
      \<lparr>req_verb = GET, req_route = Movie ex_movie_id, req_json = Inr JNull\<rparr> ex_world)) =
     [FindOne ''movies''] \<and>
   fst (serve failing_env
      \<lparr>req_verb = GET, req_route = Movie ex_movie_id, req_json = Inr JNull\<rparr> ex_world) =
     Inr (NextResponse_json
       \<lparr>status = 500, message = Some ''Internal Server Error'', data = None,
        error = Some ''connection closed''\<rparr>) \<and>
   ObjectId_isValid ex_movie_id \<and>
   movie_DELETE failing_env ex_movie_id ex_world =
     (Inr (NextResponse_json
        \<lparr>status = 500, message = Some ''Internal Server Error'', data = None,
         error = Some ''connection closed''\<rparr>),
      \<lparr>colls = colls ex_world, calls = [DeleteOne ''movies'']\<rparr>) \<and>
   connect_error offline_env = Some (Error ''getaddrinfo ENOTFOUND'') \<and>
   theaters_GET offline_env ex_world =
     (Inr (NextResponse_json
        \<lparr>status = 500, message = Some ''Internal Server Error'', data = None,
         error = Some ''getaddrinfo ENOTFOUND''\<rparr>), ex_world) \<and>
   comment_PUT ex_env (Inl (Error ''Unexpected end of JSON input'')) ex_movie_id ex_comment_id
       ex_world =
     (Inr (NextResponse_json
        \<lparr>status = 500, message = Some ''Internal Server Error'', data = None,
         error = Some ''Unexpected end of JSON input''\<rparr>), ex_world) \<and>
   destructure_text JNull = Inl (Error ''Cannot destructure property text of null'') \<and>
   comment_PUT ex_env (Inr JNull) ex_movie_id ex_comment_id ex_world =
     (Inr (NextResponse_json
        \<lparr>status = 500, message = Some ''Internal Server Error'', data = None,
         error = Some ''Cannot destructure property text of null''\<rparr>), ex_world)"
proof -
  have valid: "ObjectId_isValid ex_movie_id"
    by (rule new_ObjectId_valid [OF new_ObjectId_ex_movie_id])
  have thrown: "movie_GET_try failing_env ex_movie_id ex_world =
      (Inl (Error ''connection closed''), logged (FindOne ''movies'') ex_world)"
    using valid new_ObjectId_ex_movie_id
    by (simp add: movie_GET_try_def io_defs findOne_def failing_env_def ex_env_def)
  note at_lookup = exceptions_become_500 [where e = failing_env and w = ex_world
      and rq = "\<lparr>req_verb = GET, req_route = Movie ex_movie_id, req_json = Inr JNull\<rparr>"
      and t = "Error ''connection closed''" and i = ex_movie_id and idMovie = ex_movie_id
      and idComment = ex_comment_id and parsed = JNull and newText = JNull]
  note at_client = exceptions_become_500 [where e = offline_env and w = ex_world
      and rq = "\<lparr>req_verb = GET, req_route = Theaters, req_json = Inr JNull\<rparr>"
      and t = "Error ''getaddrinfo ENOTFOUND''" and i = ex_movie_id and idMovie = ex_movie_id
      and idComment = ex_comment_id and parsed = JNull and newText = JNull]
  note at_json = exceptions_become_500 [where e = ex_env and w = ex_world
      and rq = "\<lparr>req_verb = GET, req_route = Theaters, req_json = Inr JNull\<rparr>"
      and t = "Error ''Unexpected end of JSON input''" and i = ex_movie_id
      and idMovie = ex_movie_id and idComment = ex_comment_id and parsed = JNull
      and newText = JNull]
  note at_null = exceptions_become_500 [where e = ex_env and w = ex_world
      and rq = "\<lparr>req_verb = GET, req_route = Theaters, req_json = Inr JNull\<rparr>"
      and t = "Error ''Cannot destructure property text of null''" and i = ex_movie_id
      and idMovie = ex_movie_id and idComment = ex_comment_id and parsed = JNull
      and newText = JNull]
  have env: "op_error failing_env = Some (Error ''connection closed'')"
    "connect_error failing_env = None"
    "connect_error offline_env = Some (Error ''getaddrinfo ENOTFOUND'')"
    by (simp_all add: failing_env_def offline_env_def ex_env_def)
  have null: "destructure_text JNull = Inl (Error ''Cannot destructure property text of null'')"
    by (simp add: destructure_text_def)
  have lookup: "fst (serve failing_env
      \<lparr>req_verb = GET, req_route = Movie ex_movie_id, req_json = Inr JNull\<rparr> ex_world) =
     Inr (NextResponse_json
       \<lparr>status = 500, message = Some ''Internal Server Error'', data = None,
        error = Some ''connection closed''\<rparr>)"
    using at_lookup thrown by simp
  have logged_call: "calls (snd (serve failing_env
      \<lparr>req_verb = GET, req_route = Movie ex_movie_id, req_json = Inr JNull\<rparr> ex_world)) =
     [FindOne ''movies'']"
    using thrown by (simp add: serve_def movie_GET_def try_catch_internal_error ex_world_def)
  have delete: "movie_DELETE failing_env ex_movie_id ex_world =
     (Inr (NextResponse_json
        \<lparr>status = 500, message = Some ''Internal Server Error'', data = None,
         error = Some ''connection closed''\<rparr>),
      \<lparr>colls = colls ex_world, calls = [DeleteOne ''movies'']\<rparr>)"
    using at_lookup env valid by (simp add: logged_def ex_world_def)
  have client: "theaters_GET offline_env ex_world =
     (Inr (NextResponse_json
        \<lparr>status = 500, message = Some ''Internal Server Error'', data = None,
         error = Some ''getaddrinfo ENOTFOUND''\<rparr>), ex_world)"
    using at_client env by simp
  have json: "comment_PUT ex_env (Inl (Error ''Unexpected end of JSON input'')) ex_movie_id
       ex_comment_id ex_world =
     (Inr (NextResponse_json
        \<lparr>status = 500, message = Some ''Internal Server Error'', data = None,
         error = Some ''Unexpected end of JSON input''\<rparr>), ex_world)"
    using at_json by simp
  have destructured: "comment_PUT ex_env (Inr JNull) ex_movie_id ex_comment_id ex_world =
     (Inr (NextResponse_json
        \<lparr>status = 500, message = Some ''Internal Server Error'', data = None,
         error = Some ''Cannot destructure property text of null''\<rparr>), ex_world)"
    using at_null null by simp
  show ?thesis
    using env null thrown valid lookup logged_call delete client json destructured by simp
qed

subsection \<open>C10: what a comment update writes\<close>

text \<open>
  C10: when \<open>PUT /movies/{idMovie}/comments/{idComment}\<close> matches a comment, the comments
  collection afterwards is the one before with the matched document (the first that
  matches, \<open>d\<close>) replaced by \<open>d'\<close>, every document before and after it unchanged; \<open>d'\<close> has the
  new value in its \<open>text\<close> field and agrees with \<open>d\<close> on every other field; every other
  collection is unchanged.
\<close>

theorem comment_PUT_frame:
  assumes "connect_error e = None" and "op_error e = None"
    and "new_ObjectId idMovie = Inr mid" and "new_ObjectId idComment = Inr cid"
    and "destructure_text parsed = Inr newText"
    and "find (matches [(''_id'', JObjectId cid), (''movie_id'', JObjectId mid)])
           (colls w ''comments'') = Some d"
  shows
    "\<exists>pre post d'.
       colls w ''comments'' = pre @ d # post \<and>
       list_all (\<lambda>x. \<not> matches [(''_id'', JObjectId cid), (''movie_id'', JObjectId mid)] x) pre \<and>
       comment_PUT e (Inr parsed) idMovie idComment w =
         (Inr (NextResponse_json
           \<lparr>status = 200, message = Some ''Comment updated successfully'', data = None, error = None\<rparr>),
          \<lparr>colls = (colls w)(''comments'' := pre @ d' # post),
           calls = calls w @ [UpdateOne ''comments'']\<rparr>) \<and>
       map_of d' ''text'' = Some (if newText = JUndefined then JNull else newText) \<and>
       (\<forall>k. k \<noteq> ''text'' \<longrightarrow> map_of d' k = map_of d k) \<and>
       (\<forall>c. c \<noteq> ''comments'' \<longrightarrow>
          colls (snd (comment_PUT e (Inr parsed) idMovie idComment w)) c = colls w c)"
proof -
  let ?flt = "[(''_id'', JObjectId cid), (''movie_id'', JObjectId mid)]"
  let ?new = "if newText = JUndefined then JNull else newText"
  let ?d' = "AList.update ''text'' ?new d"
  from update_first_split [OF assms(6), of "AList.update ''text'' ?new"]
  obtain pre post where split: "colls w ''comments'' = pre @ d # post"
    and before: "list_all (\<lambda>x. \<not> matches ?flt x) pre"
    and upd: "update_first (matches ?flt) (AList.update ''text'' ?new) (colls w ''comments'') =
      pre @ ?d' # post"
    by blast
  have run: "comment_PUT e (Inr parsed) idMovie idComment w =
      (Inr (NextResponse_json
           \<lparr>status = 200, message = Some ''Comment updated successfully'', data = None, error = None\<rparr>),
       \<lparr>colls = (colls w)(''comments'' := pre @ ?d' # post),
        calls = calls w @ [UpdateOne ''comments'']\<rparr>)"
    using comment_PUT_found [OF assms] upd by simp
  have written: "map_of ?d' ''text'' = Some ?new"
    by (simp add: update_conv')
  have others: "\<forall>k. k \<noteq> ''text'' \<longrightarrow> map_of ?d' k = map_of d k"
    by (simp add: update_conv')
  have frame: "\<forall>c. c \<noteq> ''comments'' \<longrightarrow>
      colls (snd (comment_PUT e (Inr parsed) idMovie idComment w)) c = colls w c"
    by (simp add: run)
  from split before run written others frame show ?thesis by blast
qed

text \<open>C10, witness: the one comment of the example database gets a new text and keeps its
  other fields; movies and theaters are as before.\<close>

theorem comment_PUT_frame_witness:
  "connect_error ex_env = None \<and> op_error ex_env = None \<and>
   new_ObjectId ex_movie_id = Inr ex_movie_oid \<and> new_ObjectId ex_comment_id = Inr ex_comment_oid \<and>
   destructure_text (JObject [(''text'', JString ''edited'')]) = Inr (JString ''edited'') \<and>
   find (matches [(''_id'', JObjectId ex_comment_oid), (''movie_id'', JObjectId ex_movie_oid)])
     (colls ex_world ''comments'') = Some ex_comment \<and>
   (\<exists>pre post d'.
       colls ex_world ''comments'' = pre @ ex_comment # post \<and>
       colls (snd (comment_PUT ex_env (Inr (JObject [(''text'', JString ''edited'')]))
                ex_movie_id ex_comment_id ex_world)) = (colls ex_world)(''comments'' := pre @ d' # post) \<and>
       map_of d' ''text'' = Some (JString ''edited'') \<and>
       map_of d' ''name'' = map_of ex_comment ''name'' \<and>
       map_of d' ''email'' = map_of ex_comment ''email'' \<and>
       map_of d' ''movie_id'' = map_of ex_comment ''movie_id'' \<and>
       map_of d' ''date'' = map_of ex_comment ''date'' \<and>
       map_of d' ''_id'' = map_of ex_comment ''_id'')"
proof -
  have e: "connect_error ex_env = None" "op_error ex_env = None"
    by (simp_all add: ex_env_def)
  have parsed: "destructure_text (JObject [(''text'', JString ''edited'')]) = Inr (JString ''edited'')"
    by (simp add: destructure_text_def)
  have found: "find (matches [(''_id'', JObjectId ex_comment_oid), (''movie_id'', JObjectId ex_movie_oid)])
     (colls ex_world ''comments'') = Some ex_comment"
    by (simp add: ex_world_def ex_comment_def matches_def)
  from comment_PUT_frame [OF e new_ObjectId_ex_movie_id new_ObjectId_ex_comment_id parsed found]
  obtain pre post d' where
    "colls ex_world ''comments'' = pre @ ex_comment # post"
    "comment_PUT ex_env (Inr (JObject [(''text'', JString ''edited'')])) ex_movie_id ex_comment_id ex_world =
       (Inr (NextResponse_json
           \<lparr>status = 200, message = Some ''Comment updated successfully'', data = None, error = None\<rparr>),
        \<lparr>colls = (colls ex_world)(''comments'' := pre @ d' # post),
         calls = calls ex_world @ [UpdateOne ''comments'']\<rparr>)"
    "map_of d' ''text'' = Some (if JString ''edited'' = JUndefined then JNull else JString ''edited'')"
    "\<forall>k. k \<noteq> ''text'' \<longrightarrow> map_of d' k = map_of ex_comment k"
    by blast
  then have "colls ex_world ''comments'' = pre @ ex_comment # post \<and>
       colls (snd (comment_PUT ex_env (Inr (JObject [(''text'', JString ''edited'')]))
                ex_movie_id ex_comment_id ex_world)) = (colls ex_world)(''comments'' := pre @ d' # post) \<and>
       map_of d' ''text'' = Some (JString ''edited'') \<and>
       map_of d' ''name'' = map_of ex_comment ''name'' \<and>
       map_of d' ''email'' = map_of ex_comment ''email'' \<and>
       map_of d' ''movie_id'' = map_of ex_comment ''movie_id'' \<and>
       map_of d' ''date'' = map_of ex_comment ''date'' \<and>
       map_of d' ''_id'' = map_of ex_comment ''_id''"
    by simp
  then have "\<exists>pre post d'.
       colls ex_world ''comments'' = pre @ ex_comment # post \<and>
       colls (snd (comment_PUT ex_env (Inr (JObject [(''text'', JString ''edited'')]))
                ex_movie_id ex_comment_id ex_world)) = (colls ex_world)(''comments'' := pre @ d' # post) \<and>
       map_of d' ''text'' = Some (JString ''edited'') \<and>
       map_of d' ''name'' = map_of ex_comment ''name'' \<and>
       map_of d' ''email'' = map_of ex_comment ''email'' \<and>
       map_of d' ''movie_id'' = map_of ex_comment ''movie_id'' \<and>
       map_of d' ''date'' = map_of ex_comment ''date'' \<and>
       map_of d' ''_id'' = map_of ex_comment ''_id''"
    by blast
  with e parsed found new_ObjectId_ex_movie_id new_ObjectId_ex_comment_id show ?thesis
    by simp
qed

end
